theory Spec2Isabelle
  imports Main "HOL-Library.Word"
begin

unbundle bit_operations_syntax

section \<open>Scalar types of the DPX header\<close>

text \<open>
  The model follows \<^verbatim>\<open>src/dpx.imageio/dpxinput.cpp\<close>. libdpx's \<^verbatim>\<open>U8\<close> and
  \<^verbatim>\<open>U32\<close> are machine words. A header float (\<^verbatim>\<open>R32\<close>) is kept as its IEEE 754
  single-precision bit pattern, so that "not a number" is a property of the bits:
  all eight exponent bits set and a mantissa that is not zero.
\<close>

type_synonym U8 = "8 word"
type_synonym U32 = "32 word"
type_synonym R32 = "32 word"

definition isnan :: "R32 \<Rightarrow> bool" where
  "isnan f = (f AND 0x7F800000 = 0x7F800000 \<and> f AND 0x007FFFFF \<noteq> 0)"

text \<open>The comparison \<^verbatim>\<open>f != 0\<close> of a float: false exactly for +0 and -0 (and, as in
  IEEE 754, true for a NaN).\<close>

definition float_ne_zero :: "R32 \<Rightarrow> bool" where
  "float_ne_zero f = (f AND 0x7FFFFFFF \<noteq> 0)"

text \<open>The float literal \<^verbatim>\<open>1.0f\<close>.\<close>

definition float_one :: R32 where
  "float_one = 0x3F800000"

text \<open>The terminator of a C string, and the byte \<^verbatim>\<open>(char)0xFF\<close>, which the source also
  writes \<^verbatim>\<open>char(-1)\<close>.\<close>

definition NUL :: char where
  "NUL = CHR 0x00"

definition char_FF :: char where
  "char_FF = CHR 0xFF"

text \<open>\<^verbatim>\<open>field[0]\<close> of a fixed-length \<^verbatim>\<open>char\<close> array of the header. The arrays of the
  header all have a positive length; the empty list stands for no array of the source.\<close>

definition first_char :: "string \<Rightarrow> char" where
  "first_char field = (case field of [] \<Rightarrow> NUL | c # _ \<Rightarrow> c)"

section \<open>Enumerations of libdpx\<close>

text \<open>
  The enumerations are declared in \<^verbatim>\<open>libdpx/DPXHeader.h\<close>, which is not part of the
  sources at hand; only the enumerators that \<^verbatim>\<open>dpxinput.cpp\<close> names are known. Each
  enumeration is a datatype of those enumerators plus one constructor for every other
  value the header byte can hold. Two different enumerators are taken to be different
  values.
\<close>

datatype DataSize = kByte | kWord | kInt | kFloat | kDouble | kDataSizeOther

datatype Descriptor =
    kUserDefinedDescriptor | kRed | kGreen | kBlue | kAlpha | kLuma | kColorDifference
  | kDepth | kCompositeVideo | kRGB | kRGBA | kABGR | kCbYCrY | kCbYACrYA | kCbYCr
  | kCbYCrA | kUserDefined2Comp | kUserDefined3Comp | kUserDefined4Comp
  | kUserDefined5Comp | kUserDefined6Comp | kUserDefined7Comp | kUserDefined8Comp
  | kDescriptorOther

datatype Characteristic =
    kUserDefined | kPrintingDensity | kLinear | kLogarithmic | kUnspecifiedVideo
  | kSMPTE274M | kITUR709 | kITUR601 | kITUR602 | kNTSCCompositeVideo
  | kPALCompositeVideo | kZLinear | kZHomogeneous | kADX | kUndefinedCharacteristic
  | kCharacteristicOther

datatype Orientation =
    kLeftToRightTopToBottom | kRightToLeftTopToBottom | kLeftToRightBottomToTop
  | kRightToLeftBottomToTop | kTopToBottomLeftToRight | kTopToBottomRightToLeft
  | kBottomToTopLeftToRight | kBottomToTopRightToLeft | kOrientationOther

datatype Encoding = kNone | kRLE | kEncodingOther

datatype Packing = kPacked | kFilledMethodA | kFilledMethodB | kPackingOther

datatype VideoSignal =
    kUndefined | kNTSC | kPAL | kPAL_M | kSECAM | k525LineInterlace43AR
  | k625LineInterlace43AR | k525LineInterlace169AR | k625LineInterlace169AR
  | k1050LineInterlace169AR | k1125LineInterlace169AR_274 | k1250LineInterlace169AR
  | k1125LineInterlace169AR_240 | k525LineProgressive169AR | k625LineProgressive169AR
  | k750LineProgressive169AR | k1125LineProgressive169AR | k255 | kVideoSignalOther

section \<open>The lookup helper\<close>

text \<open>
  \<^verbatim>\<open>lookup\<close> (lines 175-187) first asserts that the table has at least two entries
  (\<^verbatim>\<open>OIIO_ASSERT(values.size() >= 2)\<close>), then returns the value of the first pair whose
  key matches (\<^verbatim>\<open>std::find_if\<close>), or the default. The macro \<^verbatim>\<open>OIIO_ASSERT\<close> is
  defined in \<^verbatim>\<open>OpenImageIO/dassert.h\<close>, outside the sources at hand: when its condition
  is false it prints a message on the error stream and, in a debug build only, aborts
  the program; in a release build execution goes on. The build is the parameter
  \<open>debug\<close>.

  The result of a call is what it printed and what it returned: \<open>None\<close> when the
  program was aborted and nothing was returned.
\<close>

type_synonym 'v outcome = "string list \<times> 'v option"

definition lookup :: "bool \<Rightarrow> 'k \<Rightarrow> ('k \<times> 'v) list \<Rightarrow> 'v \<Rightarrow> 'v outcome" where
  "lookup debug key values defaultval =
     (let printed = (if 2 \<le> length values then [] else [''values.size() >= 2''])
      in if \<not> 2 \<le> length values \<and> debug then (printed, None)
         else (printed,
               Some (case find (\<lambda>v. fst v = key) values of
                       Some found \<Rightarrow> snd found
                     | None \<Rightarrow> defaultval)))"

definition orientation_table :: "(Orientation \<times> int) list" where
  "orientation_table =
     [(kLeftToRightTopToBottom, 1),
      (kRightToLeftTopToBottom, 2),
      (kLeftToRightBottomToTop, 4),
      (kRightToLeftBottomToTop, 3),
      (kTopToBottomLeftToRight, 5),
      (kTopToBottomRightToLeft, 6),
      (kBottomToTopLeftToRight, 8),
      (kBottomToTopRightToLeft, 7)]"

text \<open>In the video-signal table a value is a \<^verbatim>\<open>const char*\<close>; \<open>None\<close> is the
  \<^verbatim>\<open>nullptr\<close> of the last entry ("don't set the attribute at all").\<close>

definition signal_table :: "(VideoSignal \<times> string option) list" where
  "signal_table =
     [(kUndefined, Some ''Undefined''),
      (kNTSC, Some ''NTSC''),
      (kPAL, Some ''PAL''),
      (kPAL_M, Some ''PAL-M''),
      (kSECAM, Some ''SECAM''),
      (k525LineInterlace43AR, Some ''YCbCr ITU-R 601-5 525i, 4:3''),
      (k625LineInterlace43AR, Some ''YCbCr ITU-R 601-5 625i, 4:3''),
      (k525LineInterlace169AR, Some ''YCbCr ITU-R 601-5 525i, 16:9''),
      (k625LineInterlace169AR, Some ''YCbCr ITU-R 601-5 625i, 16:9''),
      (k1050LineInterlace169AR, Some ''YCbCr 1050i, 16:9''),
      (k1125LineInterlace169AR_274, Some ''YCbCr 1125i, 16:9 (SMPTE 274M)''),
      (k1250LineInterlace169AR, Some ''YCbCr 1250i, 16:9''),
      (k1125LineInterlace169AR_240, Some ''YCbCr 1125i, 16:9 (SMPTE 240M)''),
      (k525LineProgressive169AR, Some ''YCbCr 525p, 16:9''),
      (k625LineProgressive169AR, Some ''YCbCr 625p, 16:9''),
      (k750LineProgressive169AR, Some ''YCbCr 750p, 16:9 (SMPTE 296M)''),
      (k1125LineProgressive169AR, Some ''YCbCr 1125p, 16:9 (SMPTE 274M)''),
      (k255, None)]"

definition characteristic_table :: "(Characteristic \<times> string) list" where
  "characteristic_table =
     [(kUserDefined, ''User defined''),
      (kPrintingDensity, ''Printing density''),
      (kLinear, ''Linear''),
      (kLogarithmic, ''Logarithmic''),
      (kUnspecifiedVideo, ''Unspecified video''),
      (kSMPTE274M, ''SMPTE 274M''),
      (kITUR709, ''ITU-R 709-4''),
      (kITUR601, ''ITU-R 601-5 system B or G''),
      (kITUR602, ''ITU-R 601-5 system M''),
      (kNTSCCompositeVideo, ''NTSC composite video''),
      (kPALCompositeVideo, ''PAL composite video''),
      (kZLinear, ''Z depth linear''),
      (kZHomogeneous, ''Z depth homogeneous''),
      (kADX, ''ADX''),
      (kUndefinedCharacteristic, ''Undefined'')]"

definition get_characteristic_string :: "bool \<Rightarrow> Characteristic \<Rightarrow> string outcome" where
  "get_characteristic_string debug c = lookup debug c characteristic_table ''Undefined''"

definition descriptor_table :: "(Descriptor \<times> string) list" where
  "descriptor_table =
     [(kUserDefinedDescriptor, ''User defined''),
      (kUserDefined2Comp, ''User defined''),
      (kUserDefined3Comp, ''User defined''),
      (kUserDefined4Comp, ''User defined''),
      (kUserDefined5Comp, ''User defined''),
      (kUserDefined6Comp, ''User defined''),
      (kUserDefined7Comp, ''User defined''),
      (kUserDefined8Comp, ''User defined''),
      (kRed, ''Red''),
      (kGreen, ''Green''),
      (kBlue, ''Blue''),
      (kAlpha, ''Alpha''),
      (kLuma, ''Luma''),
      (kColorDifference, ''Color difference''),
      (kDepth, ''Depth''),
      (kCompositeVideo, ''Composite video''),
      (kRGB, ''RGB''),
      (kRGBA, ''RGBA''),
      (kABGR, ''ABGR''),
      (kCbYCrY, ''CbYCrY''),
      (kCbYACrYA, ''CbYACrYA''),
      (kCbYCr, ''CbYCr''),
      (kCbYCrA, ''CbYCrA'')]"

definition get_descriptor_string :: "bool \<Rightarrow> Descriptor \<Rightarrow> string outcome" where
  "get_descriptor_string debug c = lookup debug c descriptor_table ''Undefined''"

section \<open>The image specification and its metadata\<close>

datatype BASETYPE =
  UNKNOWN | UINT8 | INT8 | UINT16 | INT16 | UINT32 | INT32 | FLOAT | DOUBLE

text \<open>
  The value of a metadata attribute. \<open>AStr\<close> is a string; \<open>AStrUnterminated field\<close>
  is what the source makes of a \<^verbatim>\<open>char\<close> array that holds no NUL: a string that
  starts with the bytes of the field and goes on with whatever follows the field in
  memory, which this model does not know. \<open>AKeyCode\<close> is the seven integers of a
  \<^verbatim>\<open>TypeKeyCode\<close>, \<open>ATimeCode\<close> the two words of a \<^verbatim>\<open>TypeTimeCode\<close>, and
  \<open>AUChars n buf\<close> an array of \<open>n\<close> unsigned chars read from the buffer \<open>buf\<close>
  (\<open>n\<close> is the \<^verbatim>\<open>int\<close> array length of the \<^verbatim>\<open>TypeDesc\<close>).
\<close>

datatype attr_value =
    AInt int
  | AUInt U32
  | AFloat R32
  | AStr string
  | AStrUnterminated string
  | AKeyCode "int list"
  | ATimeCode U32 U32
  | AUChars int "U8 list"

text \<open>
  \<^verbatim>\<open>ImageSpec\<close> is declared in \<^verbatim>\<open>OpenImageIO/imageio.h\<close>, outside the sources at
  hand. The record keeps the members that \<^verbatim>\<open>seek_subimage\<close> writes; \<^verbatim>\<open>x\<close>,
  \<^verbatim>\<open>y\<close>, \<^verbatim>\<open>width\<close>, \<^verbatim>\<open>height\<close> and \<^verbatim>\<open>format\<close> carry the prefix \<open>spec_\<close>.
\<close>

record ImageSpec =
  spec_x :: int
  spec_y :: int
  spec_width :: int
  spec_height :: int
  full_width :: int
  full_height :: int
  nchannels :: int
  spec_format :: BASETYPE
  channelnames :: "string list"
  alpha_channel :: int
  z_channel :: int
  extra_attribs :: "string \<rightharpoonup> attr_value"

text \<open>A rectangle of scanlines, \<^verbatim>\<open>dpx::Block(x1, y1, x2, y2)\<close>.\<close>

datatype Block = Block int int int int

text \<open>The decoded fields of an \<^verbatim>\<open>Imf::TimeCode\<close> that \<^verbatim>\<open>get_timecode_string\<close>
  reads.\<close>

record TimeCode =
  hours :: int
  minutes :: int
  seconds :: int
  frame :: int
  dropFrame :: bool

text \<open>
  What \<^verbatim>\<open>dpxinput.cpp\<close> calls and does not define: members of \<^verbatim>\<open>ImageSpec\<close>,
  helpers of \<^verbatim>\<open>Strutil\<close>, the \<^verbatim>\<open>Imf::TimeCode\<close> constructor, the float arithmetic of
  the machine and the stream operations of \<^verbatim>\<open>dpx::Reader\<close>. They are parameters of
  the model; every theorem below holds for all of them.
  \<^item> \<open>debug_build\<close>: whether the build is a debug build, in which a failed
    \<^verbatim>\<open>OIIO_ASSERT\<close> aborts;
  \<^item> \<open>default_channel_names\<close>: for a channel count, the channel names and the alpha
    and depth channel indices that \<^verbatim>\<open>ImageSpec::default_channel_names()\<close> sets;
  \<^item> \<open>rec709_gamma\<close>: for a gamma, the colour space name that
    \<^verbatim>\<open>set_colorspace_rec709_gamma\<close> tags and the \<^verbatim>\<open>oiio:Gamma\<close> it may record;
  \<^item> \<open>safe_strcpy\<close>: the contents of the destination buffer of the given size after
    \<^verbatim>\<open>Strutil::safe_strcpy\<close> from a header field;
  \<^item> \<open>stoi\<close>: \<^verbatim>\<open>Strutil::stoi\<close>;
  \<^item> \<open>Imf_TimeCode\<close>: the time code built from the header's time code and user bits;
  \<^item> \<open>u32_to_float\<close>, \<open>float_div\<close>: conversion of a \<^verbatim>\<open>U32\<close> to \<^verbatim>\<open>float\<close> and
    the division of two floats;
  \<^item> \<open>ReadUserData\<close>: the bytes the stream delivers for a user-data block of the given
    size; \<open>ReadBlock\<close>, \<open>QueryRGBBufferSize\<close>, \<open>ConvertToRGB\<close>: the results of the
    calls of those names for a subimage and a block.
\<close>

record externals =
  debug_build :: bool
  default_channel_names :: "int \<Rightarrow> string list \<times> int \<times> int"
  rec709_gamma :: "R32 \<Rightarrow> string \<times> R32 option"
  safe_strcpy :: "string \<Rightarrow> nat \<Rightarrow> string"
  stoi :: "string \<Rightarrow> int"
  Imf_TimeCode :: "U32 \<Rightarrow> U32 \<Rightarrow> TimeCode"
  u32_to_float :: "U32 \<Rightarrow> R32"
  float_div :: "R32 \<Rightarrow> R32 \<Rightarrow> R32"
  ReadUserData :: "nat \<Rightarrow> U8 list"
  ReadBlock :: "int \<Rightarrow> Block \<Rightarrow> bool"
  QueryRGBBufferSize :: "int \<Rightarrow> Block \<Rightarrow> int"
  ConvertToRGB :: "int \<Rightarrow> Block \<Rightarrow> bool"

text \<open>Modelled from the spec: \<^verbatim>\<open>ImageSpec::attribute\<close> (declared in
  \<^verbatim>\<open>OpenImageIO/imageio.h\<close>, not among the sources) stores a named value in "the
  minimal metadata map this core populates"; a later value of the same name replaces
  the earlier one.\<close>

definition attribute :: "string \<Rightarrow> attr_value \<Rightarrow> ImageSpec \<Rightarrow> ImageSpec" where
  "attribute name v spec = spec\<lparr>extra_attribs := (extra_attribs spec)(name \<mapsto> v)\<rparr>"

text \<open>The statement \<^verbatim>\<open>if (c) m_spec.attribute(name, v);\<close>.\<close>

definition attribute_if :: "bool \<Rightarrow> string \<Rightarrow> attr_value \<Rightarrow> ImageSpec \<Rightarrow> ImageSpec" where
  "attribute_if c name v spec = (if c then attribute name v spec else spec)"

text \<open>Modelled from the spec: \<^verbatim>\<open>ImageSpec::set_colorspace\<close> (not among the sources)
  does no "color management beyond tagging a named transfer/colorimetric space": it
  records the name under \<^verbatim>\<open>oiio:ColorSpace\<close>.\<close>

definition set_colorspace :: "string \<Rightarrow> ImageSpec \<Rightarrow> ImageSpec" where
  "set_colorspace name spec = attribute ''oiio:ColorSpace'' (AStr name) spec"

text \<open>Modelled from the spec: \<^verbatim>\<open>set_colorspace_rec709_gamma\<close> (not among the sources)
  tags the colour space that belongs to the gamma, and may record the gamma.\<close>

definition set_colorspace_rec709_gamma :: "externals \<Rightarrow> R32 \<Rightarrow> ImageSpec \<Rightarrow> ImageSpec" where
  "set_colorspace_rec709_gamma ext g spec =
     (let spec1 = set_colorspace (fst (rec709_gamma ext g)) spec
      in case snd (rec709_gamma ext g) of
           None \<Rightarrow> spec1
         | Some g' \<Rightarrow> attribute ''oiio:Gamma'' (AFloat g') spec1)"

text \<open>\<^verbatim>\<open>m_spec.default_channel_names()\<close>.\<close>

definition set_default_channel_names :: "externals \<Rightarrow> ImageSpec \<Rightarrow> ImageSpec" where
  "set_default_channel_names ext spec =
     (case default_channel_names ext (nchannels spec) of
        (names, a, z) \<Rightarrow> spec\<lparr>channelnames := names, alpha_channel := a, z_channel := z\<rparr>)"

text \<open>Modelled from the spec: the constructor \<^verbatim>\<open>ImageSpec(xres, yres, nchans, fmt)\<close>
  (declared in \<^verbatim>\<open>OpenImageIO/imageio.h\<close>, not among the sources) makes the
  specification of an image of that size, channel count and sample type, with the
  "metadata map this core populates" still empty: the origin is 0, the full size is the
  size, and the channels get their default names.\<close>

definition ImageSpec_ctor :: "externals \<Rightarrow> int \<Rightarrow> int \<Rightarrow> int \<Rightarrow> BASETYPE \<Rightarrow> ImageSpec" where
  "ImageSpec_ctor ext xres yres nchans fmt =
     set_default_channel_names ext
       \<lparr>spec_x = 0, spec_y = 0, spec_width = xres, spec_height = yres,
        full_width = xres, full_height = yres, nchannels = nchans, spec_format = fmt,
        channelnames = [], alpha_channel = -1, z_channel = -1,
        extra_attribs = Map.empty\<rparr>"

text \<open>A buffer of \<open>n\<close> elements that holds what was written to it, cut at its size, and
  \<open>fill\<close> where nothing was written.\<close>

definition resized :: "nat \<Rightarrow> 'a list \<Rightarrow> 'a \<Rightarrow> 'a list" where
  "resized n written fill = take n (written @ replicate n fill)"

text \<open>A \<^verbatim>\<open>char\<close> array handed to \<^verbatim>\<open>attribute\<close> decays to a C string: the bytes up to
  the first NUL.\<close>

definition c_string :: "string \<Rightarrow> attr_value" where
  "c_string field =
     (if NUL \<in> set field then AStr (takeWhile (\<lambda>c. c \<noteq> NUL) field)
      else AStrUnterminated field)"

section \<open>The header\<close>

text \<open>
  \<^verbatim>\<open>m_dpx.header\<close>, as \<^verbatim>\<open>dpxinput.cpp\<close> reads it: one field for each accessor it calls
  (capitalised, as in libdpx; an accessor with an element index is a function of the
  index) and one for each member it reads directly (the \<^verbatim>\<open>char\<close> arrays, as the
  list of their bytes, and \<^verbatim>\<open>xOffset\<close>, \<^verbatim>\<open>timeCode\<close> and the like). \<open>Description\<close>
  and \<open>FilmEdgeCode\<close> are the buffers those accessors fill.
\<close>

record Header =
  ImageElementCount :: int
  ComponentDataSize :: "int \<Rightarrow> DataSize"
  DataSign :: "int \<Rightarrow> U32"
  Width :: U32
  Height :: U32
  ImageElementComponentCount :: "int \<Rightarrow> int"
  xOffset :: U32
  yOffset :: U32
  xOriginalSize :: U32
  yOriginalSize :: U32
  ImageDescriptor :: "int \<Rightarrow> Descriptor"
  BitDepth :: "int \<Rightarrow> U8"
  ImageOrientation :: Orientation
  Transfer :: "int \<Rightarrow> Characteristic"
  Colorimetric :: "int \<Rightarrow> Characteristic"
  Gamma :: R32
  copyright :: string
  creator :: string
  project :: string
  creationTimeDate :: string
  ImageEncoding :: "int \<Rightarrow> Encoding"
  Description :: "int \<Rightarrow> string"
  AspectRatio :: "int \<Rightarrow> U32"
  EncryptKey :: U32
  DittoKey :: U32
  LowData :: "int \<Rightarrow> U32"
  LowQuantity :: "int \<Rightarrow> R32"
  HighData :: "int \<Rightarrow> U32"
  HighQuantity :: "int \<Rightarrow> R32"
  EndOfLinePadding :: "int \<Rightarrow> U32"
  EndOfImagePadding :: "int \<Rightarrow> U32"
  XScannedSize :: R32
  YScannedSize :: R32
  FramePosition :: U32
  SequenceLength :: U32
  HeldCount :: U32
  FrameRate :: R32
  ShutterAngle :: R32
  version :: string
  format :: string
  frameId :: string
  slateInfo :: string
  sourceImageFileName :: string
  inputDevice :: string
  inputDeviceSerialNumber :: string
  Interlace :: U8
  FieldNumber :: U8
  HorizontalSampleRate :: R32
  VerticalSampleRate :: R32
  TemporalFrameRate :: R32
  TimeOffset :: R32
  BlackLevel :: R32
  BlackGain :: R32
  BreakPoint :: R32
  WhiteLevel :: R32
  IntegrationTimes :: R32
  ImagePacking :: "int \<Rightarrow> Packing"
  filmManufacturingIdCode :: string
  filmType :: string
  prefix :: string
  count :: string
  perfsOffset :: string
  timeCode :: U32
  userBits :: U32
  sourceTimeDate :: string
  FilmEdgeCode :: string
  Signal :: VideoSignal
  UserSize :: U32

section \<open>Key code and time code\<close>

text \<open>Modelled from the spec: \<^verbatim>\<open>Strutil::starts_with\<close> (declared in
  \<^verbatim>\<open>OpenImageIO/strutil.h\<close>, not among the sources) is the "prefix match" of a format
  name.\<close>

definition starts_with :: "string \<Rightarrow> string \<Rightarrow> bool" where
  "starts_with a b = (take (length b) a = b)"

text \<open>
  \<^verbatim>\<open>get_keycode_values\<close> (lines 672-714). \<^verbatim>\<open>string_view(field, n)\<close> is the first \<open>n\<close>
  bytes of the field, and \<^verbatim>\<open>std::string format(m_dpx.header.format, 32)\<close> is the
  string of the first 32 bytes of the field, NUL bytes included: its length is 32
  whatever the field holds. \<^verbatim>\<open>format == "8kimax"\<close> compares that string with the
  six characters of the literal.
\<close>

definition get_keycode_values :: "externals \<Rightarrow> Header \<Rightarrow> int list" where
  "get_keycode_values ext h =
     (let array0 = stoi ext (take 2 (filmManufacturingIdCode h));
          array1 = stoi ext (take 2 (filmType h));
          array2 = stoi ext (take 6 (prefix h));
          array3 = stoi ext (take 4 (count h));
          array4 = stoi ext (take 2 (perfsOffset h));
          fmt = take 32 (format h);
          perfsPerFrame = 4;
          perfsPerCount = 64;
          (perfsPerFrame, perfsPerCount) =
            (if fmt = ''8kimax'' then (15, 120)
             else if starts_with fmt ''2kvv'' \<or> starts_with fmt ''4kvv''
               then (8, perfsPerCount)
             else if fmt = ''VistaVision'' then (8, perfsPerCount)
             else if starts_with fmt ''2k35'' \<or> starts_with fmt ''4k35''
               then (4, perfsPerCount)
             else if fmt = ''Full Aperture'' then (4, perfsPerCount)
             else if fmt = ''Academy'' then (4, perfsPerCount)
             else if starts_with fmt ''2k3perf'' \<or> starts_with fmt ''4k3perf''
               then (3, perfsPerCount)
             else if fmt = ''3perf'' then (3, perfsPerCount)
             else (perfsPerFrame, perfsPerCount))
      in [array0, array1, array2, array3, array4, perfsPerFrame, perfsPerCount])"

text \<open>Decimal digits of a natural number, as \<^verbatim>\<open>{}\<close> and \<^verbatim>\<open>{:02d}\<close> of the format
  library print them.\<close>

fun dec :: "nat \<Rightarrow> string" where
  "dec n = (if n < 10 then [''0123456789'' ! n]
            else dec (n div 10) @ [''0123456789'' ! (n mod 10)])"

declare dec.simps [simp del]

text \<open>The format \<^verbatim>\<open>{:02d}\<close> of an \<^verbatim>\<open>int\<close>: the sign, if negative, then the digits,
  with zeros in front of the digits until the whole has two characters.\<close>

definition fmt_02d :: "int \<Rightarrow> string" where
  "fmt_02d v =
     (if v < 0
      then CHR ''-'' # replicate (1 - length (dec (nat (- v)))) CHR ''0'' @ dec (nat (- v))
      else replicate (2 - length (dec (nat v))) CHR ''0'' @ dec (nat v))"

text \<open>\<^verbatim>\<open>get_timecode_string\<close> (lines 718-724).\<close>

definition get_timecode_string :: "TimeCode \<Rightarrow> string" where
  "get_timecode_string tc =
     fmt_02d (hours tc) @ '':'' @ fmt_02d (minutes tc) @ '':'' @ fmt_02d (seconds tc)
       @ [if dropFrame tc then CHR '';'' else CHR '':''] @ fmt_02d (frame tc)"

section \<open>The decoder instance\<close>

text \<open>What the instance asks of its stream, in the order of the calls.\<close>

datatype io_event =
    EvReadUserData nat
  | EvReadBlock int Block
  | EvConvertToRGB int Block

text \<open>
  The members of \<^verbatim>\<open>DPXInput\<close>: \<open>header\<close> is \<^verbatim>\<open>m_dpx.header\<close>, \<open>m_stream\<close> tells
  whether \<^verbatim>\<open>m_stream\<close> is set, \<open>m_decodebuf\<close> is the size of the decode buffer. \<open>io\<close>
  is the history of the calls made on the stream and \<open>errors\<close> the messages given to
  \<^verbatim>\<open>errorfmt\<close>.
\<close>

record DPXInput =
  m_subimage :: int
  m_stream :: bool
  header :: Header
  m_userBuf :: "U8 list"
  m_rawcolor :: bool
  m_decodebuf :: nat
  m_spec :: ImageSpec
  io :: "io_event list"
  errors :: "string list"

definition current_subimage :: "DPXInput \<Rightarrow> int" where
  "current_subimage s = m_subimage s"

definition errorfmt :: "string \<Rightarrow> DPXInput \<Rightarrow> DPXInput" where
  "errorfmt msg s = s\<lparr>errors := errors s @ [msg]\<rparr>"

text \<open>\<^verbatim>\<open>init\<close> (lines 68-79).\<close>

definition init :: "DPXInput \<Rightarrow> DPXInput" where
  "init s = s\<lparr>m_subimage := -1, m_stream := False, m_userBuf := [], m_rawcolor := False\<rparr>"

definition close :: "DPXInput \<Rightarrow> bool \<times> DPXInput" where
  "close s = (True, init s)"

text \<open>A sequence of statements on the image specification, run in order.\<close>

definition statements :: "('a \<Rightarrow> 'a) list \<Rightarrow> 'a \<Rightarrow> 'a" where
  "statements fs a = fold (\<lambda>f. f) fs a"

subsection \<open>The macros of lines 397-420\<close>

text \<open>Each macro takes the name \<open>x\<close> of the accessor, from which it builds the
  attribute name \<^verbatim>\<open>"dpx:" #x\<close>, and the value the accessor returns.\<close>

definition DPX_SET_ATTRIB_BYTE :: "string \<Rightarrow> U8 \<Rightarrow> ImageSpec \<Rightarrow> ImageSpec" where
  "DPX_SET_ATTRIB_BYTE x v spec =
     attribute_if (v \<noteq> 0xFF) (''dpx:'' @ x) (AInt (uint v)) spec"

definition DPX_SET_ATTRIB_INT_N :: "string \<Rightarrow> U32 \<Rightarrow> ImageSpec \<Rightarrow> ImageSpec" where
  "DPX_SET_ATTRIB_INT_N x v spec =
     attribute_if (v \<noteq> 0xFFFFFFFF) (''dpx:'' @ x) (AUInt v) spec"

definition DPX_SET_ATTRIB_INT :: "string \<Rightarrow> U32 \<Rightarrow> ImageSpec \<Rightarrow> ImageSpec" where
  "DPX_SET_ATTRIB_INT x v spec =
     attribute_if (v \<noteq> 0xFFFFFFFF) (''dpx:'' @ x) (AUInt v) spec"

definition DPX_SET_ATTRIB_FLOAT_N :: "string \<Rightarrow> R32 \<Rightarrow> ImageSpec \<Rightarrow> ImageSpec" where
  "DPX_SET_ATTRIB_FLOAT_N x v spec =
     attribute_if (\<not> isnan v) (''dpx:'' @ x) (AFloat v) spec"

definition DPX_SET_ATTRIB_FLOAT :: "string \<Rightarrow> R32 \<Rightarrow> ImageSpec \<Rightarrow> ImageSpec" where
  "DPX_SET_ATTRIB_FLOAT x v spec =
     attribute_if (\<not> isnan v) (''dpx:'' @ x) (AFloat v) spec"

definition DPX_SET_ATTRIB_STR :: "string \<Rightarrow> string \<Rightarrow> ImageSpec \<Rightarrow> ImageSpec" where
  "DPX_SET_ATTRIB_STR X field spec =
     attribute_if (first_char field \<noteq> NUL \<and> first_char field \<noteq> char_FF)
       (''dpx:'' @ X) (c_string field) spec"

subsection \<open>The parts of \<^verbatim>\<open>seek_subimage\<close>\<close>

text \<open>The switch on the component data size (lines 204-221): \<open>None\<close> is its
  \<^verbatim>\<open>default\<close> branch.\<close>

definition typedesc_of :: "Header \<Rightarrow> int \<Rightarrow> BASETYPE option" where
  "typedesc_of h subimage =
     (case ComponentDataSize h subimage of
        kByte \<Rightarrow> Some (if DataSign h subimage \<noteq> 0 then INT8 else UINT8)
      | kWord \<Rightarrow> Some (if DataSign h subimage \<noteq> 0 then INT16 else UINT16)
      | kInt \<Rightarrow> Some (if DataSign h subimage \<noteq> 0 then INT32 else UINT32)
      | kFloat \<Rightarrow> Some FLOAT
      | kDouble \<Rightarrow> Some DOUBLE
      | kDataSizeOther \<Rightarrow> None)"

text \<open>Lines 226-235. A \<^verbatim>\<open>U32\<close> given to an \<^verbatim>\<open>int\<close> is read as two's complement.\<close>

definition set_origin :: "Header \<Rightarrow> ImageSpec \<Rightarrow> ImageSpec" where
  "set_origin h spec =
     (let spec = (if xOffset h \<le> 0x7FFFFFFF then spec\<lparr>spec_x := sint (xOffset h)\<rparr> else spec);
          spec = (if yOffset h \<le> 0x7FFFFFFF then spec\<lparr>spec_y := sint (yOffset h)\<rparr> else spec);
          spec = (if sint (xOriginalSize h) > 0
                  then spec\<lparr>full_width := sint (xOriginalSize h)\<rparr> else spec);
          spec = (if sint (yOriginalSize h) > 0
                  then spec\<lparr>full_height := sint (yOriginalSize h)\<rparr> else spec)
      in spec)"

text \<open>The loop of lines 301-305, which names the channels \<^verbatim>\<open>channel0\<close>,
  \<^verbatim>\<open>channel1\<close>, ...\<close>

function channel_loop :: "int \<Rightarrow> int \<Rightarrow> string list \<Rightarrow> string list" where
  "channel_loop i n names =
     (if i < n then channel_loop (i + 1) n (names @ [''channel'' @ dec (nat i)]) else names)"
  by pat_completeness auto
termination
  by (relation "measure (\<lambda>(i, n, names). nat (n - i))") auto

declare channel_loop.simps [simp del]

text \<open>Lines 237-307: the channel names, by image descriptor.\<close>

definition emplace_back :: "string \<Rightarrow> ImageSpec \<Rightarrow> ImageSpec" where
  "emplace_back name spec = spec\<lparr>channelnames := channelnames spec @ [name]\<rparr>"

definition fill_channel_names ::
  "externals \<Rightarrow> Header \<Rightarrow> int \<Rightarrow> bool \<Rightarrow> ImageSpec \<Rightarrow> ImageSpec" where
  "fill_channel_names ext h subimage rawcolor spec0 =
     (let spec = spec0\<lparr>channelnames := []\<rparr> in
      case ImageDescriptor h subimage of
        kRed \<Rightarrow> emplace_back ''R'' spec
      | kGreen \<Rightarrow> emplace_back ''G'' spec
      | kBlue \<Rightarrow> emplace_back ''B'' spec
      | kAlpha \<Rightarrow> (emplace_back ''A'' spec)\<lparr>alpha_channel := 0\<rparr>
      | kLuma \<Rightarrow> emplace_back ''Y'' spec
      | kDepth \<Rightarrow> (emplace_back ''Z'' spec)\<lparr>z_channel := 0\<rparr>
      | kRGB \<Rightarrow> set_default_channel_names ext spec
      | kRGBA \<Rightarrow> set_default_channel_names ext spec
      | kABGR \<Rightarrow> set_default_channel_names ext spec
      | kCbYCrY \<Rightarrow>
          (if rawcolor then statements [emplace_back ''CbCr'', emplace_back ''Y''] spec
           else set_default_channel_names ext (spec\<lparr>nchannels := 3\<rparr>))
      | kCbYACrYA \<Rightarrow>
          (if rawcolor
           then (statements [emplace_back ''CbCr'', emplace_back ''Y'', emplace_back ''A'']
                   spec)\<lparr>alpha_channel := 2\<rparr>
           else set_default_channel_names ext (spec\<lparr>nchannels := 4\<rparr>))
      | kCbYCr \<Rightarrow>
          (if rawcolor
           then statements [emplace_back ''Cb'', emplace_back ''Y'', emplace_back ''Cr''] spec
           else set_default_channel_names ext spec)
      | kCbYCrA \<Rightarrow>
          (if rawcolor
           then (statements [emplace_back ''Cb'', emplace_back ''Y'', emplace_back ''Cr'',
                   emplace_back ''A''] spec)\<lparr>alpha_channel := 3\<rparr>
           else set_default_channel_names ext spec)
      | _ \<Rightarrow> spec\<lparr>channelnames :=
                  channel_loop 0 (ImageElementComponentCount h subimage) (channelnames spec)\<rparr>)"

text \<open>The value returned by a lookup in one of the static tables, given to
  \<^verbatim>\<open>attribute\<close>. The static tables have eight entries or more, so their lookups
  print nothing and always return (\<open>lookup_table\<close> below); a lookup that aborted
  would set nothing.\<close>

definition attribute_looked_up ::
  "string \<Rightarrow> ('v \<Rightarrow> attr_value) \<Rightarrow> 'v outcome \<Rightarrow> ImageSpec \<Rightarrow> ImageSpec" where
  "attribute_looked_up name mk r spec =
     (case snd r of None \<Rightarrow> spec | Some v \<Rightarrow> attribute name (mk v) spec)"

text \<open>Lines 327-350: the colour space, by transfer characteristic.\<close>

definition set_linearity :: "externals \<Rightarrow> Header \<Rightarrow> int \<Rightarrow> ImageSpec \<Rightarrow> ImageSpec" where
  "set_linearity ext h subimage spec =
     (case Transfer h subimage of
        kLinear \<Rightarrow> set_colorspace ''Linear'' spec
      | kLogarithmic \<Rightarrow> set_colorspace ''KodakLog'' spec
      | kITUR709 \<Rightarrow> set_colorspace ''Rec709'' spec
      | kUserDefined \<Rightarrow>
          (if \<not> isnan (Gamma h) \<and> float_ne_zero (Gamma h)
           then set_colorspace_rec709_gamma ext (Gamma h) spec else spec)
      | _ \<Rightarrow> spec)"

text \<open>Lines 368-376 and 496-504: a date of the header, copied into a buffer of 24
  bytes, with a blank put at index 10 and the string cut at index 19.\<close>

definition date_string :: "externals \<Rightarrow> string \<Rightarrow> attr_value" where
  "date_string ext field =
     c_string ((resized 24 (safe_strcpy ext field 24) NUL)[10 := CHR '' '', 19 := NUL])"

text \<open>
  Lines 385-389: \<^verbatim>\<open>AspectRatio(1) ? AspectRatio(0) / (float)AspectRatio(1) : 1.0f\<close>.
  The result is the float and the list of the divisors (the \<^verbatim>\<open>U32\<close> values before
  their conversion to \<^verbatim>\<open>float\<close>) of the divisions carried out on the way.
\<close>

definition pixel_aspect_ratio :: "externals \<Rightarrow> Header \<Rightarrow> R32 \<times> U32 list" where
  "pixel_aspect_ratio ext h =
     (if AspectRatio h 1 \<noteq> 0
      then (float_div ext (u32_to_float ext (AspectRatio h 0))
              (u32_to_float ext (AspectRatio h 1)), [AspectRatio h 1])
      else (float_one, []))"

text \<open>Lines 308-394: orientation, colour space and the general metadata.\<close>

definition general_metadata :: "externals \<Rightarrow> Header \<Rightarrow> int \<Rightarrow> ImageSpec \<Rightarrow> ImageSpec" where
  "general_metadata ext h subimage =
     statements
       [attribute ''oiio:BitsPerSample'' (AInt (uint (BitDepth h subimage))),
        attribute_looked_up ''Orientation'' AInt
          (lookup (debug_build ext) (ImageOrientation h) orientation_table 1),
        attribute ''oiio:subimages'' (AInt (ImageElementCount h)),
        set_linearity ext h subimage,
        attribute_looked_up ''dpx:Transfer'' AStr
          (get_characteristic_string (debug_build ext) (Transfer h subimage)),
        attribute_looked_up ''dpx:Colorimetric'' AStr
          (get_characteristic_string (debug_build ext) (Colorimetric h subimage)),
        attribute_if (first_char (copyright h) \<noteq> NUL \<and> first_char (copyright h) \<noteq> char_FF)
          ''Copyright'' (c_string (copyright h)),
        attribute_if (first_char (creator h) \<noteq> NUL \<and> first_char (creator h) \<noteq> char_FF)
          ''Software'' (c_string (creator h)),
        attribute_if (first_char (project h) \<noteq> NUL \<and> first_char (project h) \<noteq> char_FF)
          ''DocumentName'' (c_string (project h)),
        attribute_if (first_char (creationTimeDate h) \<noteq> NUL)
          ''DateTime'' (date_string ext (creationTimeDate h)),
        attribute_if (ImageEncoding h subimage = kRLE)
          ''compression'' (AStr ''rle''),
        attribute_if (first_char (Description h subimage) \<noteq> NUL
                      \<and> first_char (Description h subimage) \<noteq> char_FF)
          ''ImageDescription'' (c_string (Description h subimage)),
        attribute ''PixelAspectRatio'' (AFloat (fst (pixel_aspect_ratio ext h))),
        attribute_looked_up ''dpx:ImageDescriptor'' AStr
          (get_descriptor_string (debug_build ext) (ImageDescriptor h subimage))]"

text \<open>Lines 422-454: the header fields set through the macros.\<close>

definition dpx_metadata :: "Header \<Rightarrow> int \<Rightarrow> ImageSpec \<Rightarrow> ImageSpec" where
  "dpx_metadata h subimage =
     statements
       [DPX_SET_ATTRIB_INT ''EncryptKey'' (EncryptKey h),
        DPX_SET_ATTRIB_INT ''DittoKey'' (DittoKey h),
        DPX_SET_ATTRIB_INT_N ''LowData'' (LowData h subimage),
        DPX_SET_ATTRIB_FLOAT_N ''LowQuantity'' (LowQuantity h subimage),
        DPX_SET_ATTRIB_INT_N ''HighData'' (HighData h subimage),
        DPX_SET_ATTRIB_FLOAT_N ''HighQuantity'' (HighQuantity h subimage),
        DPX_SET_ATTRIB_INT_N ''EndOfLinePadding'' (EndOfLinePadding h subimage),
        DPX_SET_ATTRIB_INT_N ''EndOfImagePadding'' (EndOfImagePadding h subimage),
        DPX_SET_ATTRIB_FLOAT ''XScannedSize'' (XScannedSize h),
        DPX_SET_ATTRIB_FLOAT ''YScannedSize'' (YScannedSize h),
        DPX_SET_ATTRIB_INT ''FramePosition'' (FramePosition h),
        DPX_SET_ATTRIB_INT ''SequenceLength'' (SequenceLength h),
        DPX_SET_ATTRIB_INT ''HeldCount'' (HeldCount h),
        DPX_SET_ATTRIB_FLOAT ''FrameRate'' (FrameRate h),
        DPX_SET_ATTRIB_FLOAT ''ShutterAngle'' (ShutterAngle h),
        DPX_SET_ATTRIB_STR ''Version'' (version h),
        DPX_SET_ATTRIB_STR ''Format'' (format h),
        DPX_SET_ATTRIB_STR ''FrameId'' (frameId h),
        DPX_SET_ATTRIB_STR ''SlateInfo'' (slateInfo h),
        DPX_SET_ATTRIB_STR ''SourceImageFileName'' (sourceImageFileName h),
        DPX_SET_ATTRIB_STR ''InputDevice'' (inputDevice h),
        DPX_SET_ATTRIB_STR ''InputDeviceSerialNumber'' (inputDeviceSerialNumber h),
        DPX_SET_ATTRIB_BYTE ''Interlace'' (Interlace h),
        DPX_SET_ATTRIB_BYTE ''FieldNumber'' (FieldNumber h),
        DPX_SET_ATTRIB_FLOAT ''HorizontalSampleRate'' (HorizontalSampleRate h),
        DPX_SET_ATTRIB_FLOAT ''VerticalSampleRate'' (VerticalSampleRate h),
        DPX_SET_ATTRIB_FLOAT ''TemporalFrameRate'' (TemporalFrameRate h),
        DPX_SET_ATTRIB_FLOAT ''TimeOffset'' (TimeOffset h),
        DPX_SET_ATTRIB_FLOAT ''BlackLevel'' (BlackLevel h),
        DPX_SET_ATTRIB_FLOAT ''BlackGain'' (BlackGain h),
        DPX_SET_ATTRIB_FLOAT ''BreakPoint'' (BreakPoint h),
        DPX_SET_ATTRIB_FLOAT ''WhiteLevel'' (WhiteLevel h),
        DPX_SET_ATTRIB_FLOAT ''IntegrationTimes'' (IntegrationTimes h)]"

text \<open>Lines 465-472: the packing. \<open>tmpstr\<close> stays empty for a packing the switch does
  not name.\<close>

definition set_packing :: "Header \<Rightarrow> int \<Rightarrow> ImageSpec \<Rightarrow> ImageSpec" where
  "set_packing h subimage spec =
     (let tmpstr = (case ImagePacking h subimage of
                      kPacked \<Rightarrow> ''Packed''
                    | kFilledMethodA \<Rightarrow> ''Filled, method A''
                    | kFilledMethodB \<Rightarrow> ''Filled, method B''
                    | kPackingOther \<Rightarrow> [])
      in attribute_if (tmpstr \<noteq> []) ''dpx:Packing'' (AStr tmpstr) spec)"

text \<open>Lines 532-536: the video signal. A null pointer from the table sets nothing.\<close>

definition set_signal :: "bool \<Rightarrow> Header \<Rightarrow> ImageSpec \<Rightarrow> ImageSpec" where
  "set_signal debug h spec =
     (case snd (lookup debug (Signal h) signal_table (Some ''Undefined'')) of
        None \<Rightarrow> spec
      | Some None \<Rightarrow> spec
      | Some (Some signal) \<Rightarrow> attribute ''dpx:Signal'' (AStr signal) spec)"

text \<open>Lines 465-536: packing, key code, time code, dates, film edge code, signal.\<close>

definition film_tv_metadata :: "externals \<Rightarrow> Header \<Rightarrow> int \<Rightarrow> ImageSpec \<Rightarrow> ImageSpec" where
  "film_tv_metadata ext h subimage =
     statements
       [set_packing h subimage,
        attribute_if (first_char (filmManufacturingIdCode h) \<noteq> NUL)
          ''smpte:KeyCode'' (AKeyCode (get_keycode_values ext h)),
        attribute_if (timeCode h \<noteq> 0xFFFFFFFF)
          ''smpte:TimeCode'' (ATimeCode (timeCode h) (userBits h)),
        attribute_if (timeCode h \<noteq> 0xFFFFFFFF)
          ''dpx:TimeCode''
          (AStr (get_timecode_string (Imf_TimeCode ext (timeCode h) (userBits h)))),
        attribute_if (userBits h \<noteq> 0xFFFFFFFF)
          ''dpx:UserBits'' (AUInt (userBits h)),
        attribute_if (first_char (sourceTimeDate h) \<noteq> NUL)
          ''dpx:SourceDateTime'' (date_string ext (sourceTimeDate h)),
        attribute_if (first_char (FilmEdgeCode h) \<noteq> NUL)
          ''dpx:FilmEdgeCode'' (c_string (FilmEdgeCode h)),
        set_signal (debug_build ext) h]"

text \<open>
  Lines 538-548: the user data. The buffer is filled when it is empty and the header
  gives a size that is neither 0 nor \<^verbatim>\<open>0xFFFFFFFF\<close>: it is resized to that size and
  the stream is asked for the block (the result of \<^verbatim>\<open>ReadUserData\<close> is not looked
  at; the buffer keeps its size whatever arrives). A buffer that is not empty is
  attached to the specification.
\<close>

definition read_user_data :: "externals \<Rightarrow> DPXInput \<Rightarrow> DPXInput" where
  "read_user_data ext s =
     (let h = header s;
          s1 = (if m_userBuf s = [] \<and> UserSize h \<noteq> 0 \<and> UserSize h \<noteq> 0xFFFFFFFF
                then s\<lparr>m_userBuf :=
                         resized (unat (UserSize h)) (ReadUserData ext (unat (UserSize h))) 0,
                       io := io s @ [EvReadUserData (unat (UserSize h))]\<rparr>
                else s)
      in if m_userBuf s1 \<noteq> []
         then s1\<lparr>m_spec := attribute ''dpx:UserData''
                             (AUChars (sint (UserSize h)) (m_userBuf s1)) (m_spec s1)\<rparr>
         else s1)"

subsection \<open>\<^verbatim>\<open>seek_subimage\<close> (lines 191-556)\<close>

text \<open>Lines 222-555, once the type of the samples is known: the specification is built
  anew, the user data is read or reused, and a specification of one channel turns raw
  colour on.\<close>

definition load_subimage :: "externals \<Rightarrow> DPXInput \<Rightarrow> int \<Rightarrow> BASETYPE \<Rightarrow> DPXInput" where
  "load_subimage ext s1 subimage typedesc =
     (let h = header s1;
          spec = ImageSpec_ctor ext (sint (Width h)) (sint (Height h))
                   (ImageElementComponentCount h subimage) typedesc;
          spec = statements
                   [set_origin h,
                    fill_channel_names ext h subimage (m_rawcolor s1),
                    general_metadata ext h subimage,
                    dpx_metadata h subimage,
                    film_tv_metadata ext h subimage] spec;
          s2 = read_user_data ext (s1\<lparr>m_spec := spec\<rparr>);
          s3 = (if nchannels (m_spec s2) = 1 then s2\<lparr>m_rawcolor := True\<rparr> else s2)
      in s3)"

text \<open>
  The result is the returned \<^verbatim>\<open>bool\<close> and the instance after the call. The subimage
  count is compared as an \<^verbatim>\<open>int\<close>. \<^verbatim>\<open>m_subimage\<close> is assigned before the switch on the
  component data size, \<^verbatim>\<open>m_spec\<close> after it.
\<close>

definition seek_subimage :: "externals \<Rightarrow> DPXInput \<Rightarrow> int \<Rightarrow> int \<Rightarrow> bool \<times> DPXInput" where
  "seek_subimage ext s subimage miplevel =
     (if miplevel \<noteq> 0 then (False, s)
      else if subimage = m_subimage s then (True, s)
      else if subimage < 0 \<or> subimage \<ge> ImageElementCount (header s) then (False, s)
      else
        let s1 = s\<lparr>m_subimage := subimage\<rparr>
        in case typedesc_of (header s1) subimage of
             None \<Rightarrow> (False, errorfmt ''Invalid component data size'' s1)
           | Some typedesc \<Rightarrow> (True, load_subimage ext s1 subimage typedesc))"

subsection \<open>Reading scanlines (lines 569-609)\<close>

definition read_native_scanlines ::
  "externals \<Rightarrow> DPXInput \<Rightarrow> int \<Rightarrow> int \<Rightarrow> int \<Rightarrow> int \<Rightarrow> bool \<times> DPXInput" where
  "read_native_scanlines ext s subimage miplevel ybegin yend =
     (case seek_subimage ext s subimage miplevel of
        (False, s1) \<Rightarrow> (False, s1)
      | (True, s1) \<Rightarrow>
          let block = Block 0 (ybegin - spec_y (m_spec s1)) (sint (Width (header s1) - 1))
                        (yend - 1 - spec_y (m_spec s1))
          in if m_rawcolor s1
             then (let s2 = s1\<lparr>io := io s1 @ [EvReadBlock subimage block]\<rparr>
                   in if \<not> ReadBlock ext subimage block then (False, s2) else (True, s2))
             else
               (let bufsize = QueryRGBBufferSize ext subimage block;
                    s2 = (if bufsize > 0 then s1\<lparr>m_decodebuf := nat bufsize\<rparr> else s1);
                    s3 = s2\<lparr>io := io s2 @ [EvReadBlock subimage block]\<rparr>
                in if \<not> ReadBlock ext subimage block then (False, s3)
                   else (let s4 = s3\<lparr>io := io s3 @ [EvConvertToRGB subimage block]\<rparr>
                         in if \<not> ConvertToRGB ext subimage block then (False, s4)
                            else (True, s4))))"

definition read_native_scanline ::
  "externals \<Rightarrow> DPXInput \<Rightarrow> int \<Rightarrow> int \<Rightarrow> int \<Rightarrow> bool \<times> DPXInput" where
  "read_native_scanline ext s subimage miplevel y =
     read_native_scanlines ext s subimage miplevel y (y + 1)"

subsection \<open>Opening (lines 132-171)\<close>

text \<open>
  \<open>proxy_ok\<close> is the result of \<^verbatim>\<open>ioproxy_use_or_open\<close>, and \<open>read_header\<close> that of
  \<^verbatim>\<open>m_dpx.ReadHeader()\<close>: whether it succeeded, and the header the reader holds
  afterwards. The last argument of \<open>open_config\<close> is whether the configuration asks
  for raw colour by one of its three attributes.
\<close>

definition open_file ::
  "externals \<Rightarrow> DPXInput \<Rightarrow> bool \<Rightarrow> bool \<times> Header \<Rightarrow> bool \<times> DPXInput" where
  "open_file ext s proxy_ok read_header =
     (if \<not> proxy_ok then (False, s)
      else
        let s1 = s\<lparr>m_stream := True, header := snd read_header\<rparr>
        in if \<not> fst read_header
           then (False, snd (close (errorfmt ''Could not read header'' s1)))
           else (case seek_subimage ext s1 0 0 of
                   (True, s2) \<Rightarrow> (True, s2)
                 | (False, s2) \<Rightarrow> (False, snd (close s2))))"

definition open_config ::
  "externals \<Rightarrow> DPXInput \<Rightarrow> bool \<Rightarrow> bool \<Rightarrow> bool \<times> Header \<Rightarrow> bool \<times> DPXInput" where
  "open_config ext s rawcolor proxy_ok read_header =
     open_file ext (s\<lparr>m_rawcolor := rawcolor\<rparr>) proxy_ok read_header"

text \<open>The calls a client makes on an open instance, and a run of them.\<close>

datatype call =
    Seek int int
  | ReadScanlines int int int int
  | ReadScanline int int int

fun do_call :: "externals \<Rightarrow> call \<Rightarrow> DPXInput \<Rightarrow> DPXInput" where
  "do_call ext (Seek subimage miplevel) s = snd (seek_subimage ext s subimage miplevel)"
| "do_call ext (ReadScanlines subimage miplevel ybegin yend) s =
     snd (read_native_scanlines ext s subimage miplevel ybegin yend)"
| "do_call ext (ReadScanline subimage miplevel y) s =
     snd (read_native_scanline ext s subimage miplevel y)"

definition run :: "externals \<Rightarrow> call list \<Rightarrow> DPXInput \<Rightarrow> DPXInput" where
  "run ext calls s = fold (do_call ext) calls s"

section \<open>Concrete inputs\<close>

text \<open>A \<^verbatim>\<open>char\<close> array of \<open>n\<close> bytes that holds the text \<open>s\<close>, filled up with NUL
  bytes.\<close>

definition padded :: "nat \<Rightarrow> string \<Rightarrow> string" where
  "padded n s = s @ replicate (n - length s) NUL"

text \<open>One choice of the parameters, for running the model on concrete inputs: channel
  names as OpenImageIO gives them for up to four channels, a string copy that is cut at
  the buffer size and NUL-filled, and stand-ins for the rest.\<close>

definition sample_externals :: externals where
  "sample_externals =
     \<lparr>debug_build = False,
      default_channel_names =
        (\<lambda>n. if n = 1 then ([''Y''], -1, -1)
             else (take (nat n) [''R'', ''G'', ''B'', ''A''], if n \<ge> 4 then 3 else -1, -1)),
      rec709_gamma = (\<lambda>g. (''Gamma'', Some g)),
      safe_strcpy =
        (\<lambda>src n. take n (take (n - 1) (takeWhile (\<lambda>c. c \<noteq> NUL) src) @ replicate n NUL)),
      stoi = (\<lambda>str. 0),
      Imf_TimeCode =
        (\<lambda>t u. \<lparr>hours = 1, minutes = 2, seconds = 3, frame = 4, dropFrame = False\<rparr>),
      u32_to_float = (\<lambda>w. w),
      float_div = (\<lambda>a b. a),
      ReadUserData = (\<lambda>n. replicate n 7),
      ReadBlock = (\<lambda>subimage block. True),
      QueryRGBBufferSize = (\<lambda>subimage block. 0),
      ConvertToRGB = (\<lambda>subimage block. True)\<rparr>"

text \<open>
  A header with two image elements: element 0 is 8-bit \<^verbatim>\<open>CbYCrY\<close> with two
  components, element 1 is 16-bit luma. Most optional fields are unset (all bits 1, or
  an array of NUL bytes); the film format is \<^verbatim>\<open>8kimax\<close>, the version field is empty,
  the input device field starts with the byte \<^verbatim>\<open>0xFF\<close>, and four bytes of user data
  follow the header.
\<close>

definition sample_header :: Header where
  "sample_header =
     \<lparr>ImageElementCount = 2,
      ComponentDataSize = (\<lambda>i. if i = 0 then kByte else kWord),
      DataSign = (\<lambda>i. 0),
      Width = 1920,
      Height = 1080,
      ImageElementComponentCount = (\<lambda>i. if i = 0 then 2 else 1),
      xOffset = 0,
      yOffset = 0,
      xOriginalSize = 0xFFFFFFFF,
      yOriginalSize = 0xFFFFFFFF,
      ImageDescriptor = (\<lambda>i. if i = 0 then kCbYCrY else kLuma),
      BitDepth = (\<lambda>i. if i = 0 then 8 else 16),
      ImageOrientation = kLeftToRightTopToBottom,
      Transfer = (\<lambda>i. kITUR709),
      Colorimetric = (\<lambda>i. kITUR709),
      Gamma = 0xFFFFFFFF,
      copyright = padded 200 [],
      creator = padded 100 ''scanner'',
      project = padded 200 [],
      creationTimeDate = padded 24 [],
      ImageEncoding = (\<lambda>i. kNone),
      Description = (\<lambda>i. padded 33 []),
      AspectRatio = (\<lambda>i. if i = 0 then 4 else 0),
      EncryptKey = 0xFFFFFFFF,
      DittoKey = 1,
      LowData = (\<lambda>i. 0),
      LowQuantity = (\<lambda>i. 0xFFFFFFFF),
      HighData = (\<lambda>i. 0xFFFFFFFF),
      HighQuantity = (\<lambda>i. 0x3F800000),
      EndOfLinePadding = (\<lambda>i. 0),
      EndOfImagePadding = (\<lambda>i. 0),
      XScannedSize = 0xFFFFFFFF,
      YScannedSize = 0xFFFFFFFF,
      FramePosition = 12,
      SequenceLength = 0xFFFFFFFF,
      HeldCount = 0xFFFFFFFF,
      FrameRate = 0x41C00000,
      ShutterAngle = 0xFFFFFFFF,
      version = padded 8 [],
      format = padded 32 ''8kimax'',
      frameId = padded 32 [],
      slateInfo = padded 100 [],
      sourceImageFileName = padded 100 [],
      inputDevice = replicate 32 char_FF,
      inputDeviceSerialNumber = padded 32 ''SN1'',
      Interlace = 0,
      FieldNumber = 0xFF,
      HorizontalSampleRate = 0xFFFFFFFF,
      VerticalSampleRate = 0xFFFFFFFF,
      TemporalFrameRate = 0xFFFFFFFF,
      TimeOffset = 0xFFFFFFFF,
      BlackLevel = 0xFFFFFFFF,
      BlackGain = 0xFFFFFFFF,
      BreakPoint = 0xFFFFFFFF,
      WhiteLevel = 0xFFFFFFFF,
      IntegrationTimes = 0xFFFFFFFF,
      ImagePacking = (\<lambda>i. kPacked),
      filmManufacturingIdCode = ''01'',
      filmType = ''02'',
      prefix = ''000003'',
      count = ''0004'',
      perfsOffset = ''05'',
      timeCode = 0xFFFFFFFF,
      userBits = 0xFFFFFFFF,
      sourceTimeDate = padded 24 [],
      FilmEdgeCode = padded 17 [],
      Signal = k255,
      UserSize = 4\<rparr>"

text \<open>The specification of an instance that has selected nothing yet.\<close>

definition blank_spec :: ImageSpec where
  "blank_spec =
     \<lparr>spec_x = 0, spec_y = 0, spec_width = 0, spec_height = 0, full_width = 0,
      full_height = 0, nchannels = 0, spec_format = UNKNOWN, channelnames = [],
      alpha_channel = -1, z_channel = -1, extra_attribs = Map.empty\<rparr>"

text \<open>An instance as the constructor leaves it (\<^verbatim>\<open>DPXInput() { init(); }\<close>): no
  stream, no subimage selected; and the same instance once \<^verbatim>\<open>open\<close> has set the
  stream and read the sample header, before it selects subimage 0.\<close>

definition new_input :: DPXInput where
  "new_input =
     \<lparr>m_subimage = -1, m_stream = False, header = sample_header, m_userBuf = [],
      m_rawcolor = False, m_decodebuf = 0, m_spec = blank_spec, io = [], errors = []\<rparr>"

definition header_parsed :: DPXInput where
  "header_parsed = new_input\<lparr>m_stream := True\<rparr>"

section \<open>What the claims speak of\<close>

text \<open>The metadata set of the selected subimage: the attribute of a name, if any.\<close>

definition attr :: "DPXInput \<Rightarrow> string \<Rightarrow> attr_value option" where
  "attr s name = extra_attribs (m_spec s) name"

text \<open>The instance has a currently selected subimage: its current index is one of the
  image elements of its header.\<close>

definition subimage_selected :: "DPXInput \<Rightarrow> bool" where
  "subimage_selected s = (0 \<le> m_subimage s \<and> m_subimage s < ImageElementCount (header s))"

text \<open>An attribute that is absent when the field is unset and holds the value
  otherwise.\<close>

definition unless :: "bool \<Rightarrow> attr_value \<Rightarrow> attr_value option" where
  "unless unset v = (if unset then None else Some v)"

text \<open>How often the instance has asked its stream for the user data, and how often it
  has converted a block to RGB.\<close>

definition user_data_reads :: "DPXInput \<Rightarrow> nat" where
  "user_data_reads s = length (filter (\<lambda>e. case e of EvReadUserData n \<Rightarrow> True | _ \<Rightarrow> False) (io s))"

definition conversions :: "DPXInput \<Rightarrow> nat" where
  "conversions s = length (filter (\<lambda>e. case e of EvConvertToRGB i b \<Rightarrow> True | _ \<Rightarrow> False) (io s))"

text \<open>Two decimal digits, the first a zero for a number below ten.\<close>

definition two_digits :: "int \<Rightarrow> string" where
  "two_digits v = [''0123456789'' ! nat (v div 10), ''0123456789'' ! nat (v mod 10)]"

text \<open>The attribute names that each part of \<^verbatim>\<open>seek_subimage\<close> may set.\<close>

definition general_names :: "string list" where
  "general_names = [''oiio:BitsPerSample'', ''Orientation'', ''oiio:subimages'',
     ''oiio:ColorSpace'', ''oiio:Gamma'', ''dpx:Transfer'', ''dpx:Colorimetric'', ''Copyright'',
     ''Software'', ''DocumentName'', ''DateTime'', ''compression'', ''ImageDescription'',
     ''PixelAspectRatio'', ''dpx:ImageDescriptor'']"

definition dpx_names :: "string list" where
  "dpx_names = map (\<lambda>x. ''dpx:'' @ x)
     [''EncryptKey'', ''DittoKey'', ''LowData'', ''LowQuantity'', ''HighData'', ''HighQuantity'',
      ''EndOfLinePadding'', ''EndOfImagePadding'', ''XScannedSize'', ''YScannedSize'',
      ''FramePosition'', ''SequenceLength'', ''HeldCount'', ''FrameRate'', ''ShutterAngle'',
      ''Version'', ''Format'', ''FrameId'', ''SlateInfo'', ''SourceImageFileName'',
      ''InputDevice'', ''InputDeviceSerialNumber'', ''Interlace'', ''FieldNumber'',
      ''HorizontalSampleRate'', ''VerticalSampleRate'', ''TemporalFrameRate'', ''TimeOffset'',
      ''BlackLevel'', ''BlackGain'', ''BreakPoint'', ''WhiteLevel'', ''IntegrationTimes'']"

definition film_tv_names :: "string list" where
  "film_tv_names = [''dpx:Packing'', ''smpte:KeyCode'', ''smpte:TimeCode'', ''dpx:TimeCode'',
     ''dpx:UserBits'', ''dpx:SourceDateTime'', ''dpx:FilmEdgeCode'', ''dpx:Signal'']"

text \<open>A statement that changes nothing of a specification but its metadata.\<close>

definition only_attribs :: "(ImageSpec \<Rightarrow> ImageSpec) \<Rightarrow> bool" where
  "only_attribs f = (\<forall>spec. \<exists>m. f spec = spec\<lparr>extra_attribs := m\<rparr>)"

text \<open>The sample instance after \<^verbatim>\<open>seek_subimage(0, 0)\<close>, and after
  \<^verbatim>\<open>seek_subimage(1, 0)\<close> on top of that.\<close>

definition selected0 :: DPXInput where
  "selected0 = snd (seek_subimage sample_externals header_parsed 0 0)"

definition selected1 :: DPXInput where
  "selected1 = snd (seek_subimage sample_externals selected0 1 0)"

text \<open>The specification that \<^verbatim>\<open>seek_subimage\<close> builds before it turns to the user
  data.\<close>

definition built_spec :: "externals \<Rightarrow> DPXInput \<Rightarrow> int \<Rightarrow> BASETYPE \<Rightarrow> ImageSpec" where
  "built_spec ext s1 i td =
     film_tv_metadata ext (header s1) i
       (dpx_metadata (header s1) i
         (general_metadata ext (header s1) i
           (fill_channel_names ext (header s1) i (m_rawcolor s1)
             (set_origin (header s1)
               (ImageSpec_ctor ext (sint (Width (header s1))) (sint (Height (header s1)))
                  (ImageElementComponentCount (header s1) i) td)))))"

text \<open>
  Two relations between an instance and the same instance later. \<open>cache_kept\<close>: the
  stream was asked for the user data at most once in between, a buffer that was filled
  is still the same, and nothing was read into it again. \<open>raw_kept\<close>: the header is the
  same, and raw colour, if it was on, is still on and no block was converted to RGB.
\<close>

definition cache_kept :: "DPXInput \<Rightarrow> DPXInput \<Rightarrow> bool" where
  "cache_kept s t =
     ((m_userBuf s \<noteq> [] \<longrightarrow> m_userBuf t = m_userBuf s \<and> user_data_reads t = user_data_reads s)
      \<and> user_data_reads s \<le> user_data_reads t
      \<and> user_data_reads t \<le> user_data_reads s + 1
      \<and> (user_data_reads t = user_data_reads s + 1 \<longrightarrow> m_userBuf t \<noteq> []))"

definition raw_kept :: "DPXInput \<Rightarrow> DPXInput \<Rightarrow> bool" where
  "raw_kept s t =
     (header t = header s
      \<and> (m_rawcolor s \<longrightarrow> m_rawcolor t \<and> conversions t = conversions s))"

section \<open>Auxiliary facts\<close>

subsection \<open>Lookup, digits\<close>

lemma lookup_table:
  "2 \<le> length values \<Longrightarrow>
   lookup debug key values d =
     ([], Some (case find (\<lambda>v. fst v = key) values of Some found \<Rightarrow> snd found | None \<Rightarrow> d))"
  by (simp add: lookup_def)

lemma lookup_release:
  "snd (lookup False key values d) =
     Some (case find (\<lambda>v. fst v = key) values of Some found \<Rightarrow> snd found | None \<Rightarrow> d)"
  by (simp add: lookup_def Let_def)

lemma find_first_match:
  assumes "i < length values" "fst (values ! i) = key" "\<forall>j < i. fst (values ! j) \<noteq> key"
  shows "find (\<lambda>v. fst v = key) values = Some (values ! i)"
  using assms by (auto simp: find_Some_iff)

lemma find_no_match:
  assumes "key \<notin> fst ` set values"
  shows "find (\<lambda>v. fst v = key) values = None"
  using assms by (force simp: find_None_iff)

lemma dec_lt_10: "n < 10 \<Longrightarrow> dec n = [''0123456789'' ! n]"
  by (simp add: dec.simps)

lemma dec_lt_100: "10 \<le> n \<Longrightarrow> n < 100 \<Longrightarrow> dec n = [''0123456789'' ! (n div 10), ''0123456789'' ! (n mod 10)]"
  by (subst dec.simps) (simp add: dec_lt_10 less_mult_imp_div_less)

lemma fmt_02d_two_digits: 
  assumes "0 \<le> v" "v < 100" shows "fmt_02d v = two_digits v"
proof (cases "v < 10")
  case True
  with assms have "nat v < 10" "v div 10 = 0" "v mod 10 = v" by simp_all
  with assms show ?thesis by (simp add: fmt_02d_def two_digits_def dec_lt_10)
next
  case False
  with assms have n: "10 \<le> nat v" "nat v < 100" by simp_all
  from assms have "nat v div 10 = nat (v div 10)" "nat v mod 10 = nat (v mod 10)"
    by (simp_all add: nat_div_distrib nat_mod_distrib)
  with assms n show ?thesis by (simp add: fmt_02d_def two_digits_def dec_lt_100)
qed

subsection \<open>The attribute of a name after each statement\<close>

lemma statements_Nil: "statements [] a = a"
  by (simp add: statements_def)

lemma statements_Cons: "statements (f # fs) a = statements fs (f a)"
  by (simp add: statements_def)

lemma ea_attribute:
  "extra_attribs (attribute n v spec) name = (if name = n then Some v else extra_attribs spec name)"
  by (auto simp: attribute_def)

lemma ea_attribute_if:
  "extra_attribs (attribute_if c n v spec) name =
     (if name = n \<and> c then Some v else extra_attribs spec name)"
  by (auto simp: attribute_if_def ea_attribute)

lemma ea_attribute_looked_up:
  "name \<noteq> n \<Longrightarrow> extra_attribs (attribute_looked_up n mk r spec) name = extra_attribs spec name"
  by (simp add: attribute_looked_up_def ea_attribute split: option.splits)

lemma ea_macros:
  "extra_attribs (DPX_SET_ATTRIB_INT x u spec) name =
     (if name = ''dpx:'' @ x \<and> u \<noteq> 0xFFFFFFFF then Some (AUInt u) else extra_attribs spec name)"
  "extra_attribs (DPX_SET_ATTRIB_INT_N x u spec) name =
     (if name = ''dpx:'' @ x \<and> u \<noteq> 0xFFFFFFFF then Some (AUInt u) else extra_attribs spec name)"
  "extra_attribs (DPX_SET_ATTRIB_FLOAT x f spec) name =
     (if name = ''dpx:'' @ x \<and> \<not> isnan f then Some (AFloat f) else extra_attribs spec name)"
  "extra_attribs (DPX_SET_ATTRIB_FLOAT_N x f spec) name =
     (if name = ''dpx:'' @ x \<and> \<not> isnan f then Some (AFloat f) else extra_attribs spec name)"
  "extra_attribs (DPX_SET_ATTRIB_BYTE x b spec) name =
     (if name = ''dpx:'' @ x \<and> b \<noteq> 0xFF then Some (AInt (uint b)) else extra_attribs spec name)"
  "extra_attribs (DPX_SET_ATTRIB_STR x field spec) name =
     (if name = ''dpx:'' @ x \<and> first_char field \<noteq> NUL \<and> first_char field \<noteq> char_FF
      then Some (c_string field) else extra_attribs spec name)"
  by (simp_all add: DPX_SET_ATTRIB_INT_def DPX_SET_ATTRIB_INT_N_def DPX_SET_ATTRIB_FLOAT_def
      DPX_SET_ATTRIB_FLOAT_N_def DPX_SET_ATTRIB_BYTE_def DPX_SET_ATTRIB_STR_def ea_attribute_if)

lemma ea_set_default_channel_names:
  "extra_attribs (set_default_channel_names ext spec) = extra_attribs spec"
  by (simp add: set_default_channel_names_def split: prod.splits)

lemma ea_emplace_back: "extra_attribs (emplace_back n spec) = extra_attribs spec"
  by (simp add: emplace_back_def)

lemma ea_set_origin: "extra_attribs (set_origin h spec) = extra_attribs spec"
  by (simp add: set_origin_def Let_def)

lemma ea_fill_channel_names:
  "extra_attribs (fill_channel_names ext h i raw spec) = extra_attribs spec"
  by (cases "ImageDescriptor h i")
     (simp_all add: fill_channel_names_def Let_def statements_Cons statements_Nil
        ea_emplace_back ea_set_default_channel_names)

lemma ea_ctor: "extra_attribs (ImageSpec_ctor ext w hh n td) = Map.empty"
  by (simp add: ImageSpec_ctor_def ea_set_default_channel_names)

lemma ea_set_linearity:
  "name \<noteq> ''oiio:ColorSpace'' \<Longrightarrow> name \<noteq> ''oiio:Gamma'' \<Longrightarrow>
   extra_attribs (set_linearity ext h i spec) name = extra_attribs spec name"
  by (cases "Transfer h i")
     (simp_all add: set_linearity_def set_colorspace_def set_colorspace_rec709_gamma_def
        Let_def ea_attribute split: option.splits)

lemma ea_general_metadata:
  "name \<notin> set general_names \<Longrightarrow>
   extra_attribs (general_metadata ext h i spec) name = extra_attribs spec name"
  by (simp add: general_names_def general_metadata_def statements_Cons statements_Nil
      ea_attribute ea_attribute_if ea_attribute_looked_up ea_set_linearity)

lemma ea_set_packing:
  "name \<noteq> ''dpx:Packing'' \<Longrightarrow> extra_attribs (set_packing h i spec) name = extra_attribs spec name"
  by (simp add: set_packing_def Let_def ea_attribute_if)

lemma ea_set_signal:
  "name \<noteq> ''dpx:Signal'' \<Longrightarrow>
   extra_attribs (set_signal dbg h spec) name = extra_attribs spec name"
  by (simp add: set_signal_def ea_attribute split: option.splits)

lemma ea_dpx_metadata:
  "name \<notin> set dpx_names \<Longrightarrow>
   extra_attribs (dpx_metadata h i spec) name = extra_attribs spec name"
  by (simp add: dpx_names_def dpx_metadata_def statements_Cons statements_Nil ea_macros)

lemma ea_film_tv_metadata:
  "name \<notin> set film_tv_names \<Longrightarrow>
   extra_attribs (film_tv_metadata ext h i spec) name = extra_attribs spec name"
  by (simp add: film_tv_names_def film_tv_metadata_def statements_Cons statements_Nil
      ea_attribute_if ea_set_packing ea_set_signal)

lemma m_spec_read_user_data:
  "name \<noteq> ''dpx:UserData'' \<Longrightarrow>
   extra_attribs (m_spec (read_user_data ext s)) name = extra_attribs (m_spec s) name"
  by (simp add: read_user_data_def Let_def ea_attribute)

lemma attr_load_subimage:
  "name \<noteq> ''dpx:UserData'' \<Longrightarrow>
   attr (load_subimage ext s1 i td) name =
     extra_attribs
       (film_tv_metadata ext (header s1) i
         (dpx_metadata (header s1) i
           (general_metadata ext (header s1) i
             (fill_channel_names ext (header s1) i (m_rawcolor s1)
               (set_origin (header s1)
                 (ImageSpec_ctor ext (sint (Width (header s1))) (sint (Height (header s1)))
                    (ImageElementComponentCount (header s1) i) td)))))) name"
  by (simp add: attr_def load_subimage_def Let_def statements_Cons statements_Nil
      m_spec_read_user_data)

lemma seek_subimage_new:
  assumes "seek_subimage ext s i miplevel = (True, s')" "i \<noteq> m_subimage s"
  obtains td where "miplevel = 0" "0 \<le> i" "i < ImageElementCount (header s)"
    "typedesc_of (header s) i = Some td"
    "s' = load_subimage ext (s\<lparr>m_subimage := i\<rparr>) i td"
  using assms by (auto simp: seek_subimage_def Let_def split: if_splits option.splits)

lemma typedesc_of_None: "typedesc_of h i = None \<longleftrightarrow> ComponentDataSize h i = kDataSizeOther"
  by (cases "ComponentDataSize h i") (simp_all add: typedesc_of_def)

lemma attr_new_subimage:
  assumes "seek_subimage ext s subimage miplevel = (True, s')" "subimage \<noteq> m_subimage s"
    and "name \<notin> set general_names" "name \<notin> set film_tv_names" "name \<noteq> ''dpx:UserData''"
  shows "\<exists>spec. extra_attribs spec name = None
          \<and> attr s' name = extra_attribs (dpx_metadata (header s) subimage spec) name"
proof -
  from assms(1,2) obtain td where
    s': "s' = load_subimage ext (s\<lparr>m_subimage := subimage\<rparr>) subimage td"
    by (rule seek_subimage_new)
  show ?thesis
    unfolding s' using assms(3-5)
    by (simp add: attr_load_subimage ea_film_tv_metadata)
      (rule exI, rule conjI [OF _ refl],
        simp add: ea_general_metadata ea_fill_channel_names ea_set_origin ea_ctor)
qed

lemma attr_PixelAspectRatio:
  assumes "seek_subimage ext s subimage miplevel = (True, s')" "subimage \<noteq> m_subimage s"
  shows "attr s' ''PixelAspectRatio'' = Some (AFloat (fst (pixel_aspect_ratio ext (header s))))"
proof -
  from assms obtain td where
    s': "s' = load_subimage ext (s\<lparr>m_subimage := subimage\<rparr>) subimage td"
    by (rule seek_subimage_new)
  show ?thesis
    unfolding s'
    by (simp add: attr_load_subimage ea_film_tv_metadata film_tv_names_def ea_dpx_metadata
        dpx_names_def)
      (simp add: general_metadata_def statements_Cons statements_Nil ea_attribute
        ea_attribute_looked_up)
qed

lemma ea_set_signal_value:
  "extra_attribs (set_signal dbg h spec) ''dpx:Signal'' =
     (case snd (lookup dbg (Signal h) signal_table (Some ''Undefined'')) of
        Some (Some sg) \<Rightarrow> Some (AStr sg)
      | _ \<Rightarrow> extra_attribs spec ''dpx:Signal'')"
  by (simp add: set_signal_def ea_attribute split: option.splits)

lemma ea_film_tv_metadata_Signal:
  assumes "extra_attribs spec ''dpx:Signal'' = None"
  shows "extra_attribs (film_tv_metadata ext h i spec) ''dpx:Signal'' =
     (case snd (lookup (debug_build ext) (Signal h) signal_table (Some ''Undefined'')) of
        Some (Some sg) \<Rightarrow> Some (AStr sg)
      | _ \<Rightarrow> None)"
  using assms
  by (simp add: film_tv_metadata_def statements_Cons statements_Nil ea_set_signal_value
      ea_attribute_if ea_set_packing split: option.splits)

lemma attr_Signal:
  assumes "seek_subimage ext s subimage miplevel = (True, s')" "subimage \<noteq> m_subimage s"
  shows "attr s' ''dpx:Signal'' =
     (case snd (lookup (debug_build ext) (Signal (header s)) signal_table
                  (Some ''Undefined'')) of
        Some (Some sg) \<Rightarrow> Some (AStr sg)
      | _ \<Rightarrow> None)"
proof -
  from assms obtain td where
    s': "s' = load_subimage ext (s\<lparr>m_subimage := subimage\<rparr>) subimage td"
    by (rule seek_subimage_new)
  show ?thesis
    unfolding s'
    by (simp add: attr_load_subimage)
      (rule ea_film_tv_metadata_Signal,
        simp add: ea_dpx_metadata dpx_names_def
          ea_general_metadata general_names_def ea_fill_channel_names ea_set_origin ea_ctor)
qed

lemma lookup_signal:
  "snd (lookup dbg sg signal_table (Some ''Undefined'')) =
     Some (case sg of
         kUndefined \<Rightarrow> Some ''Undefined''
       | kNTSC \<Rightarrow> Some ''NTSC''
       | kPAL \<Rightarrow> Some ''PAL''
       | kPAL_M \<Rightarrow> Some ''PAL-M''
       | kSECAM \<Rightarrow> Some ''SECAM''
       | k525LineInterlace43AR \<Rightarrow> Some ''YCbCr ITU-R 601-5 525i, 4:3''
       | k625LineInterlace43AR \<Rightarrow> Some ''YCbCr ITU-R 601-5 625i, 4:3''
       | k525LineInterlace169AR \<Rightarrow> Some ''YCbCr ITU-R 601-5 525i, 16:9''
       | k625LineInterlace169AR \<Rightarrow> Some ''YCbCr ITU-R 601-5 625i, 16:9''
       | k1050LineInterlace169AR \<Rightarrow> Some ''YCbCr 1050i, 16:9''
       | k1125LineInterlace169AR_274 \<Rightarrow> Some ''YCbCr 1125i, 16:9 (SMPTE 274M)''
       | k1250LineInterlace169AR \<Rightarrow> Some ''YCbCr 1250i, 16:9''
       | k1125LineInterlace169AR_240 \<Rightarrow> Some ''YCbCr 1125i, 16:9 (SMPTE 240M)''
       | k525LineProgressive169AR \<Rightarrow> Some ''YCbCr 525p, 16:9''
       | k625LineProgressive169AR \<Rightarrow> Some ''YCbCr 625p, 16:9''
       | k750LineProgressive169AR \<Rightarrow> Some ''YCbCr 750p, 16:9 (SMPTE 296M)''
       | k1125LineProgressive169AR \<Rightarrow> Some ''YCbCr 1125p, 16:9 (SMPTE 274M)''
       | k255 \<Rightarrow> None
       | kVideoSignalOther \<Rightarrow> Some ''Undefined'')"
  by (cases sg) (simp_all add: lookup_def signal_table_def)

subsection \<open>Statements that change the metadata only\<close>

lemma only_attribsI: "(\<And>spec. \<exists>m. f spec = spec\<lparr>extra_attribs := m\<rparr>) \<Longrightarrow> only_attribs f"
  by (simp add: only_attribs_def)

lemma only_attribsD:
  assumes "only_attribs f"
  shows "nchannels (f spec) = nchannels spec" "channelnames (f spec) = channelnames spec"
    "alpha_channel (f spec) = alpha_channel spec" "spec_y (f spec) = spec_y spec"
proof -
  from assms obtain m where "f spec = spec\<lparr>extra_attribs := m\<rparr>"
    unfolding only_attribs_def by blast
  then show "nchannels (f spec) = nchannels spec" "channelnames (f spec) = channelnames spec"
    "alpha_channel (f spec) = alpha_channel spec" "spec_y (f spec) = spec_y spec"
    by simp_all
qed

lemma oa_id: "only_attribs (\<lambda>spec. spec)"
proof (rule only_attribsI)
  fix spec :: ImageSpec
  show "\<exists>m. spec = spec\<lparr>extra_attribs := m\<rparr>"
    by (rule exI [where x = "extra_attribs spec"]) simp
qed

lemma oa_attribute: "only_attribs (attribute n v)"
  by (rule only_attribsI) (simp add: attribute_def, blast)

lemma oa_attribute_if: "only_attribs (attribute_if c n v)"
proof (cases c)
  case True
  then have "attribute_if c n v = attribute n v" by (simp add: attribute_if_def fun_eq_iff)
  then show ?thesis by (simp add: oa_attribute)
next
  case False
  then have "attribute_if c n v = (\<lambda>spec. spec)" by (simp add: attribute_if_def fun_eq_iff)
  then show ?thesis by (simp add: oa_id)
qed

lemma oa_attribute_looked_up: "only_attribs (attribute_looked_up n mk r)"
proof (cases "snd r")
  case None
  then have "attribute_looked_up n mk r = (\<lambda>spec. spec)"
    by (simp add: attribute_looked_up_def fun_eq_iff)
  then show ?thesis by (simp add: oa_id)
next
  case (Some b)
  then have "attribute_looked_up n mk r = attribute n (mk b)"
    by (simp add: attribute_looked_up_def fun_eq_iff)
  then show ?thesis by (simp add: oa_attribute)
qed

lemma oa_comp: "only_attribs f \<Longrightarrow> only_attribs g \<Longrightarrow> only_attribs (\<lambda>spec. g (f spec))"
  unfolding only_attribs_def
proof (intro allI)
  fix spec
  assume f: "\<forall>spec. \<exists>m. f spec = spec\<lparr>extra_attribs := m\<rparr>"
    and g: "\<forall>spec. \<exists>m. g spec = spec\<lparr>extra_attribs := m\<rparr>"
  from f obtain m where m: "f spec = spec\<lparr>extra_attribs := m\<rparr>" by blast
  from g obtain m' where "g (f spec) = (f spec)\<lparr>extra_attribs := m'\<rparr>" by blast
  with m have "g (f spec) = spec\<lparr>extra_attribs := m'\<rparr>" by simp
  then show "\<exists>m. g (f spec) = spec\<lparr>extra_attribs := m\<rparr>" by blast
qed

lemma oa_statements: "list_all only_attribs fs \<Longrightarrow> only_attribs (statements fs)"
proof (induction fs)
  case Nil
  have "statements [] = (\<lambda>spec::ImageSpec. spec)" by (simp add: statements_Nil fun_eq_iff)
  then show ?case by (simp add: oa_id)
next
  case (Cons f fs)
  have "statements (f # fs) = (\<lambda>spec. statements fs (f spec))"
    by (simp add: statements_Cons fun_eq_iff)
  with Cons show ?case by (simp add: oa_comp)
qed

lemma oa_macros:
  "only_attribs (DPX_SET_ATTRIB_INT x u)" "only_attribs (DPX_SET_ATTRIB_INT_N x u)"
  "only_attribs (DPX_SET_ATTRIB_FLOAT x f)" "only_attribs (DPX_SET_ATTRIB_FLOAT_N x f)"
  "only_attribs (DPX_SET_ATTRIB_BYTE x b)" "only_attribs (DPX_SET_ATTRIB_STR x field)"
proof -
  have a: "DPX_SET_ATTRIB_INT x u = attribute_if (u \<noteq> 0xFFFFFFFF) (''dpx:'' @ x) (AUInt u)"
    and b: "DPX_SET_ATTRIB_INT_N x u = attribute_if (u \<noteq> 0xFFFFFFFF) (''dpx:'' @ x) (AUInt u)"
    and c: "DPX_SET_ATTRIB_FLOAT x f = attribute_if (\<not> isnan f) (''dpx:'' @ x) (AFloat f)"
    and d: "DPX_SET_ATTRIB_FLOAT_N x f = attribute_if (\<not> isnan f) (''dpx:'' @ x) (AFloat f)"
    and e: "DPX_SET_ATTRIB_BYTE x b = attribute_if (b \<noteq> 0xFF) (''dpx:'' @ x) (AInt (uint b))"
    and f: "DPX_SET_ATTRIB_STR x field =
        attribute_if (first_char field \<noteq> NUL \<and> first_char field \<noteq> char_FF) (''dpx:'' @ x)
          (c_string field)"
    by (simp_all add: fun_eq_iff DPX_SET_ATTRIB_INT_def DPX_SET_ATTRIB_INT_N_def
        DPX_SET_ATTRIB_FLOAT_def DPX_SET_ATTRIB_FLOAT_N_def DPX_SET_ATTRIB_BYTE_def
        DPX_SET_ATTRIB_STR_def)
  show "only_attribs (DPX_SET_ATTRIB_INT x u)" "only_attribs (DPX_SET_ATTRIB_INT_N x u)"
    "only_attribs (DPX_SET_ATTRIB_FLOAT x f)" "only_attribs (DPX_SET_ATTRIB_FLOAT_N x f)"
    "only_attribs (DPX_SET_ATTRIB_BYTE x b)" "only_attribs (DPX_SET_ATTRIB_STR x field)"
    unfolding a b c d e f by (rule oa_attribute_if)+
qed

lemma oa_set_linearity: "only_attribs (set_linearity ext h i)"
proof -
  have cs: "only_attribs (set_colorspace n)" for n
  proof -
    have "set_colorspace n = attribute ''oiio:ColorSpace'' (AStr n)"
      by (simp add: set_colorspace_def fun_eq_iff)
    then show ?thesis by (simp add: oa_attribute)
  qed
  have g: "only_attribs (set_colorspace_rec709_gamma ext gm)" for gm
  proof (cases "snd (rec709_gamma ext gm)")
    case None
    then have "set_colorspace_rec709_gamma ext gm = set_colorspace (fst (rec709_gamma ext gm))"
      by (simp add: set_colorspace_rec709_gamma_def fun_eq_iff)
    then show ?thesis by (simp add: cs)
  next
    case (Some g')
    then have "set_colorspace_rec709_gamma ext gm =
        (\<lambda>spec. attribute ''oiio:Gamma'' (AFloat g') (set_colorspace (fst (rec709_gamma ext gm)) spec))"
      by (simp add: set_colorspace_rec709_gamma_def fun_eq_iff)
    then show ?thesis by (simp add: oa_comp cs oa_attribute)
  qed
  have "set_linearity ext h i = (\<lambda>spec. spec) \<or> (\<exists>n. set_linearity ext h i = set_colorspace n)
      \<or> set_linearity ext h i = set_colorspace_rec709_gamma ext (Gamma h)"
    by (cases "Transfer h i") (auto simp: set_linearity_def fun_eq_iff)
  then show ?thesis using cs g oa_id by auto
qed

lemma oa_set_packing: "only_attribs (set_packing h i)"
proof -
  have "\<exists>c v. set_packing h i = attribute_if c ''dpx:Packing'' v"
    by (simp add: set_packing_def Let_def fun_eq_iff) blast
  then show ?thesis using oa_attribute_if by auto
qed

lemma oa_set_signal: "only_attribs (set_signal dbg h)"
proof (cases "snd (lookup dbg (Signal h) signal_table (Some ''Undefined''))")
  case None
  then have "set_signal dbg h = (\<lambda>spec. spec)" by (simp add: set_signal_def fun_eq_iff)
  then show ?thesis by (simp add: oa_id)
next
  case outer: (Some b)
  show ?thesis
  proof (cases b)
    case None
    with outer have "set_signal dbg h = (\<lambda>spec. spec)"
      by (simp add: set_signal_def fun_eq_iff)
    then show ?thesis by (simp add: oa_id)
  next
    case (Some sg)
    with outer have "set_signal dbg h = attribute ''dpx:Signal'' (AStr sg)"
      by (simp add: set_signal_def fun_eq_iff)
    then show ?thesis by (simp add: oa_attribute)
  qed
qed

lemma oa_general_metadata: "only_attribs (general_metadata ext h i)"
  unfolding general_metadata_def
  by (rule oa_statements)
    (simp add: oa_attribute oa_attribute_if oa_attribute_looked_up oa_set_linearity)

lemma oa_dpx_metadata: "only_attribs (dpx_metadata h i)"
  unfolding dpx_metadata_def
  by (rule oa_statements) (simp add: oa_macros)

lemma oa_film_tv_metadata: "only_attribs (film_tv_metadata ext h i)"
  unfolding film_tv_metadata_def
  by (rule oa_statements) (simp add: oa_attribute_if oa_set_packing oa_set_signal)

subsection \<open>The instance after a call\<close>

lemma user_data_reads_append [simp]:
  "user_data_reads (s\<lparr>io := io s @ [e]\<rparr>) =
     user_data_reads s + (case e of EvReadUserData n \<Rightarrow> 1 | _ \<Rightarrow> 0)"
  by (cases e) (simp_all add: user_data_reads_def)

lemma conversions_append [simp]:
  "conversions (s\<lparr>io := io s @ [e]\<rparr>) =
     conversions s + (case e of EvConvertToRGB i b \<Rightarrow> 1 | _ \<Rightarrow> 0)"
  by (cases e) (simp_all add: conversions_def)

lemma user_data_reads_cong: "io s = io t \<Longrightarrow> user_data_reads s = user_data_reads t"
  by (simp add: user_data_reads_def)

lemma conversions_cong: "io s = io t \<Longrightarrow> conversions s = conversions t"
  by (simp add: conversions_def)

lemma read_user_data_cached:
  assumes "m_userBuf s \<noteq> []"
  shows "m_userBuf (read_user_data ext s) = m_userBuf s" "io (read_user_data ext s) = io s"
  using assms by (simp_all add: read_user_data_def Let_def)

lemma read_user_data_skipped:
  assumes "UserSize (header s) = 0 \<or> UserSize (header s) = 0xFFFFFFFF"
  shows "m_userBuf (read_user_data ext s) = m_userBuf s" "io (read_user_data ext s) = io s"
  using assms by (auto simp: read_user_data_def Let_def)

lemma read_user_data_first:
  assumes "m_userBuf s = []" "UserSize (header s) \<noteq> 0" "UserSize (header s) \<noteq> 0xFFFFFFFF"
  shows "length (m_userBuf (read_user_data ext s)) = unat (UserSize (header s))"
    "m_userBuf (read_user_data ext s) \<noteq> []"
    "io (read_user_data ext s) = io s @ [EvReadUserData (unat (UserSize (header s)))]"
proof -
  let ?n = "unat (UserSize (header s))"
  let ?buf = "resized ?n (ReadUserData ext ?n) 0"
  from assms(2) have n: "?n \<noteq> 0" by (simp add: unat_eq_0)
  have len: "length ?buf = ?n" by (simp add: resized_def)
  with n have ne: "?buf \<noteq> []" by auto
  from assms ne len show "length (m_userBuf (read_user_data ext s)) = ?n"
    by (simp add: read_user_data_def Let_def)
  from assms ne show "m_userBuf (read_user_data ext s) \<noteq> []"
    by (simp add: read_user_data_def Let_def)
  from assms ne show "io (read_user_data ext s) = io s @ [EvReadUserData ?n]"
    by (simp add: read_user_data_def Let_def)
qed

lemma read_user_data_fields [simp]:
  "header (read_user_data ext s) = header s"
  "m_rawcolor (read_user_data ext s) = m_rawcolor s"
  "m_subimage (read_user_data ext s) = m_subimage s"
  by (simp_all add: read_user_data_def Let_def)

lemma read_user_data_layout [simp]:
  "nchannels (m_spec (read_user_data ext s)) = nchannels (m_spec s)"
  "channelnames (m_spec (read_user_data ext s)) = channelnames (m_spec s)"
  "alpha_channel (m_spec (read_user_data ext s)) = alpha_channel (m_spec s)"
  by (simp_all add: read_user_data_def Let_def attribute_def)

lemma load_subimage_eq:
  "load_subimage ext s1 i td =
     (let s2 = read_user_data ext (s1\<lparr>m_spec := built_spec ext s1 i td\<rparr>)
      in if nchannels (m_spec s2) = 1 then s2\<lparr>m_rawcolor := True\<rparr> else s2)"
  by (simp add: load_subimage_def built_spec_def Let_def statements_Cons statements_Nil)

lemma load_subimage_fields [simp]:
  "header (load_subimage ext s1 i td) = header s1"
  "m_subimage (load_subimage ext s1 i td) = m_subimage s1"
  by (simp_all add: load_subimage_eq Let_def)

lemma load_subimage_io:
  "io (load_subimage ext s1 i td) = io (read_user_data ext (s1\<lparr>m_spec := built_spec ext s1 i td\<rparr>))"
  "m_userBuf (load_subimage ext s1 i td) =
     m_userBuf (read_user_data ext (s1\<lparr>m_spec := built_spec ext s1 i td\<rparr>))"
  by (simp_all add: load_subimage_eq Let_def)

lemma load_subimage_rawcolor:
  "m_rawcolor (load_subimage ext s1 i td) =
     (m_rawcolor s1 \<or> nchannels (m_spec (load_subimage ext s1 i td)) = 1)"
  by (simp add: load_subimage_eq Let_def)

lemma built_spec_layout:
  "nchannels (built_spec ext s1 i td) =
     nchannels (fill_channel_names ext (header s1) i (m_rawcolor s1)
        (set_origin (header s1)
          (ImageSpec_ctor ext (sint (Width (header s1))) (sint (Height (header s1)))
             (ImageElementComponentCount (header s1) i) td)))"
  "channelnames (built_spec ext s1 i td) =
     channelnames (fill_channel_names ext (header s1) i (m_rawcolor s1)
        (set_origin (header s1)
          (ImageSpec_ctor ext (sint (Width (header s1))) (sint (Height (header s1)))
             (ImageElementComponentCount (header s1) i) td)))"
  "alpha_channel (built_spec ext s1 i td) =
     alpha_channel (fill_channel_names ext (header s1) i (m_rawcolor s1)
        (set_origin (header s1)
          (ImageSpec_ctor ext (sint (Width (header s1))) (sint (Height (header s1)))
             (ImageElementComponentCount (header s1) i) td)))"
  by (simp_all add: built_spec_def only_attribsD [OF oa_film_tv_metadata]
      only_attribsD [OF oa_dpx_metadata] only_attribsD [OF oa_general_metadata])

lemma load_subimage_layout:
  "nchannels (m_spec (load_subimage ext s1 i td)) = nchannels (built_spec ext s1 i td)"
  "channelnames (m_spec (load_subimage ext s1 i td)) = channelnames (built_spec ext s1 i td)"
  "alpha_channel (m_spec (load_subimage ext s1 i td)) = alpha_channel (built_spec ext s1 i td)"
  by (simp_all add: load_subimage_eq Let_def)

lemma nchannels_ctor [simp]:
  "nchannels (set_origin h (ImageSpec_ctor ext w hh n td)) = n"
  by (simp add: set_origin_def Let_def ImageSpec_ctor_def set_default_channel_names_def
      split: prod.splits)

lemma raw_layout:
  assumes "m_rawcolor s1"
  shows "ImageDescriptor (header s1) i = kCbYCrY \<Longrightarrow>
           channelnames (m_spec (load_subimage ext s1 i td)) = [''CbCr'', ''Y'']
           \<and> nchannels (m_spec (load_subimage ext s1 i td)) = ImageElementComponentCount (header s1) i"
    "ImageDescriptor (header s1) i = kCbYACrYA \<Longrightarrow>
           channelnames (m_spec (load_subimage ext s1 i td)) = [''CbCr'', ''Y'', ''A'']
           \<and> alpha_channel (m_spec (load_subimage ext s1 i td)) = 2
           \<and> nchannels (m_spec (load_subimage ext s1 i td)) = ImageElementComponentCount (header s1) i"
    "ImageDescriptor (header s1) i = kCbYCr \<Longrightarrow>
           channelnames (m_spec (load_subimage ext s1 i td)) = [''Cb'', ''Y'', ''Cr'']
           \<and> nchannels (m_spec (load_subimage ext s1 i td)) = ImageElementComponentCount (header s1) i"
    "ImageDescriptor (header s1) i = kCbYCrA \<Longrightarrow>
           channelnames (m_spec (load_subimage ext s1 i td)) = [''Cb'', ''Y'', ''Cr'', ''A'']
           \<and> alpha_channel (m_spec (load_subimage ext s1 i td)) = 3
           \<and> nchannels (m_spec (load_subimage ext s1 i td)) = ImageElementComponentCount (header s1) i"
  using assms
  by (simp_all add: load_subimage_layout built_spec_layout fill_channel_names_def Let_def
      statements_Cons statements_Nil emplace_back_def)

lemma cache_kept_refl: "cache_kept s s"
  by (simp add: cache_kept_def)

lemma cache_kept_trans: "cache_kept s t \<Longrightarrow> cache_kept t u \<Longrightarrow> cache_kept s u"
  unfolding cache_kept_def by (cases "user_data_reads t = user_data_reads s") auto

lemma raw_kept_refl: "raw_kept s s"
  by (simp add: raw_kept_def)

lemma raw_kept_trans: "raw_kept s t \<Longrightarrow> raw_kept t u \<Longrightarrow> raw_kept s u"
  unfolding raw_kept_def by auto

lemma seek_subimage_disj:
  "snd (seek_subimage ext s i ml) = s
   \<or> snd (seek_subimage ext s i ml) = errorfmt ''Invalid component data size'' (s\<lparr>m_subimage := i\<rparr>)
   \<or> (\<exists>td. seek_subimage ext s i ml = (True, load_subimage ext (s\<lparr>m_subimage := i\<rparr>) i td)
         \<and> i \<noteq> m_subimage s)"
  by (cases "typedesc_of (header s) i") (auto simp: seek_subimage_def)

lemma seek_subimage_cases:
  obtains (same) "snd (seek_subimage ext s i ml) = s"
  | (bad) "snd (seek_subimage ext s i ml) = errorfmt ''Invalid component data size'' (s\<lparr>m_subimage := i\<rparr>)"
  | (load) td where
      "seek_subimage ext s i ml = (True, load_subimage ext (s\<lparr>m_subimage := i\<rparr>) i td)"
      "i \<noteq> m_subimage s"
  using seek_subimage_disj [of ext s i ml] by blast

lemma cache_kept_load: "cache_kept s (load_subimage ext (s\<lparr>m_subimage := i\<rparr>) i td)"
proof -
  let ?s1 = "(s\<lparr>m_subimage := i\<rparr>)\<lparr>m_spec := built_spec ext (s\<lparr>m_subimage := i\<rparr>) i td\<rparr>"
  have b: "m_userBuf ?s1 = m_userBuf s" and h: "header ?s1 = header s" and o: "io ?s1 = io s"
    by simp_all
  show ?thesis
  proof (cases "m_userBuf s = [] \<and> UserSize (header s) \<noteq> 0 \<and> UserSize (header s) \<noteq> 0xFFFFFFFF")
    case True
    with b h have "m_userBuf ?s1 = []" "UserSize (header ?s1) \<noteq> 0"
      "UserSize (header ?s1) \<noteq> 0xFFFFFFFF" by simp_all
    from read_user_data_first(2,3) [OF this, of ext] True show ?thesis
      by (simp add: cache_kept_def load_subimage_io user_data_reads_def)
  next
    case False
    then consider "m_userBuf ?s1 \<noteq> []"
      | "UserSize (header ?s1) = 0 \<or> UserSize (header ?s1) = 0xFFFFFFFF" by auto
    then have "m_userBuf (read_user_data ext ?s1) = m_userBuf s
        \<and> io (read_user_data ext ?s1) = io s"
    proof cases
      case 1
      from read_user_data_cached [OF this, of ext] show ?thesis by simp
    next
      case 2
      from read_user_data_skipped [OF this, of ext] show ?thesis by simp
    qed
    then show ?thesis
      by (simp add: cache_kept_def load_subimage_io user_data_reads_def)
  qed
qed

lemma cache_kept_seek: "cache_kept s (snd (seek_subimage ext s i ml))"
proof (cases rule: seek_subimage_cases [of ext s i ml])
  case same
  then show ?thesis by (simp add: cache_kept_refl)
next
  case bad
  then show ?thesis by (simp add: cache_kept_def errorfmt_def user_data_reads_def)
next
  case (load td)
  then show ?thesis by (simp add: cache_kept_load)
qed

lemma raw_kept_seek: "raw_kept s (snd (seek_subimage ext s i ml))"
proof (cases rule: seek_subimage_cases [of ext s i ml])
  case same
  then show ?thesis by (simp add: raw_kept_refl)
next
  case bad
  then show ?thesis by (simp add: raw_kept_def errorfmt_def conversions_def)
next
  case (load td)
  let ?s1 = "(s\<lparr>m_subimage := i\<rparr>)\<lparr>m_spec := built_spec ext (s\<lparr>m_subimage := i\<rparr>) i td\<rparr>"
  have "cache_kept s (load_subimage ext (s\<lparr>m_subimage := i\<rparr>) i td)"
    by (rule cache_kept_load)
  have io: "io (load_subimage ext (s\<lparr>m_subimage := i\<rparr>) i td) = io s
      \<or> (\<exists>n. io (load_subimage ext (s\<lparr>m_subimage := i\<rparr>) i td) = io s @ [EvReadUserData n])"
    by (simp add: load_subimage_io read_user_data_def Let_def)
  then have "conversions (load_subimage ext (s\<lparr>m_subimage := i\<rparr>) i td) = conversions s"
    by (auto simp: conversions_def)
  with load show ?thesis
    by (simp add: raw_kept_def load_subimage_rawcolor)
qed

lemma read_native_scanlines_after_seek:
  fixes ext s i ml yb ye
  defines "s1 \<equiv> snd (seek_subimage ext s i ml)"
    and "t \<equiv> snd (read_native_scanlines ext s i ml yb ye)"
  shows "m_userBuf t = m_userBuf s1" "user_data_reads t = user_data_reads s1"
    "header t = header s1" "m_rawcolor t = m_rawcolor s1"
    "m_rawcolor s1 \<Longrightarrow> conversions t = conversions s1"
  unfolding s1_def t_def read_native_scanlines_def
  by (cases "seek_subimage ext s i ml"; cases "fst (seek_subimage ext s i ml)";
      simp add: Let_def user_data_reads_def conversions_def)+

lemma cache_kept_read: "cache_kept s (snd (read_native_scanlines ext s i ml yb ye))"
  using cache_kept_seek [of s ext i ml]
  by (simp add: cache_kept_def read_native_scanlines_after_seek)

lemma raw_kept_read: "raw_kept s (snd (read_native_scanlines ext s i ml yb ye))"
  using raw_kept_seek [of s ext i ml]
  by (auto simp: raw_kept_def read_native_scanlines_after_seek)

lemma kept_do_call: "cache_kept s (do_call ext c s)" "raw_kept s (do_call ext c s)"
  by (cases c; simp add: cache_kept_seek cache_kept_read raw_kept_seek raw_kept_read
      read_native_scanline_def)+

lemma kept_run: "cache_kept s (run ext calls s)" "raw_kept s (run ext calls s)"
proof -
  have "cache_kept s (run ext calls s) \<and> raw_kept s (run ext calls s)"
  proof (induction calls arbitrary: s)
    case Nil
    show ?case by (simp add: run_def cache_kept_refl raw_kept_refl)
  next
    case (Cons c calls)
    have r: "run ext (c # calls) s = run ext calls (do_call ext c s)"
      by (simp add: run_def)
    from Cons [of "do_call ext c s"] kept_do_call [of s ext c]
    show ?case unfolding r by (blast intro: cache_kept_trans raw_kept_trans)
  qed
  then show "cache_kept s (run ext calls s)" "raw_kept s (run ext calls s)" by simp_all
qed

lemma subimage_selected_seek:
  assumes "subimage_selected s"
  shows "subimage_selected (snd (seek_subimage ext s i ml))"
  using assms
  by (cases "typedesc_of (header s) i")
     (auto simp: subimage_selected_def seek_subimage_def errorfmt_def)

lemma read_native_scanlines_m_subimage:
  "m_subimage (snd (read_native_scanlines ext s i ml yb ye)) =
     m_subimage (snd (seek_subimage ext s i ml))"
  unfolding read_native_scanlines_def
  by (cases "seek_subimage ext s i ml"; cases "fst (seek_subimage ext s i ml)";
      simp add: Let_def)

lemma subimage_selected_do_call:
  assumes "subimage_selected s"
  shows "subimage_selected (do_call ext c s)"
proof -
  have rd: "subimage_selected (snd (read_native_scanlines ext s i ml yb ye))" for i ml yb ye
    using subimage_selected_seek [OF assms, of ext i ml]
    by (simp add: subimage_selected_def read_native_scanlines_m_subimage
        read_native_scanlines_after_seek)
  show ?thesis
    by (cases c) (simp_all add: subimage_selected_seek [OF assms] rd read_native_scanline_def)
qed

lemma subimage_selected_run:
  "subimage_selected s \<Longrightarrow> subimage_selected (run ext calls s)"
proof (induction calls arbitrary: s)
  case Nil
  then show ?case by (simp add: run_def)
next
  case (Cons c calls)
  have "run ext (c # calls) s = run ext calls (do_call ext c s)" by (simp add: run_def)
  with Cons show ?case by (simp add: subimage_selected_do_call)
qed

lemma subimage_selected_open_file:
  assumes "open_file ext s ok rh = (True, t)" "m_subimage s = -1"
  shows "subimage_selected t"
proof -
  let ?s1 = "s\<lparr>m_stream := True, header := snd rh\<rparr>"
  from assms(1) have sk: "seek_subimage ext ?s1 0 0 = (True, t)"
    by (auto simp: open_file_def Let_def split: if_splits prod.splits bool.splits)
  from assms(2) have ne: "0 \<noteq> m_subimage ?s1" by simp
  from sk ne obtain td where "0 < ImageElementCount (header ?s1)"
    "t = load_subimage ext (?s1\<lparr>m_subimage := 0\<rparr>) 0 td"
    by (rule seek_subimage_new)
  then show ?thesis by (simp add: subimage_selected_def)
qed

lemma attr_UserData:
  assumes "seek_subimage ext s i miplevel = (True, s')" "i \<noteq> m_subimage s"
  shows "attr s' ''dpx:UserData'' =
    (if m_userBuf s' = [] then None
     else Some (AUChars (sint (UserSize (header s))) (m_userBuf s')))"
proof -
  from assms obtain td where
    s': "s' = load_subimage ext (s\<lparr>m_subimage := i\<rparr>) i td"
    by (rule seek_subimage_new)
  have none: "extra_attribs (built_spec ext (s\<lparr>m_subimage := i\<rparr>) i td) ''dpx:UserData'' = None"
    by (simp add: built_spec_def ea_film_tv_metadata film_tv_names_def ea_dpx_metadata
        dpx_names_def ea_general_metadata general_names_def ea_fill_channel_names
        ea_set_origin ea_ctor)
  show ?thesis
    unfolding s' attr_def
    by (simp add: load_subimage_eq Let_def) (simp add: read_user_data_def Let_def ea_attribute none)
qed

subsection \<open>The sample instance\<close>

lemma header_sample [simp]: "header header_parsed = sample_header" "header new_input = sample_header"
  "m_subimage header_parsed = -1" "m_subimage new_input = -1"
  by (simp_all add: header_parsed_def new_input_def)

lemma count_sample [simp]: "ImageElementCount sample_header = 2"
  by (simp add: sample_header_def)

lemma seek_subimage_selects:
  assumes "i \<noteq> m_subimage s" "0 \<le> i" "i < ImageElementCount (header s)"
    "typedesc_of (header s) i = Some td"
  shows "seek_subimage ext s i 0 = (True, load_subimage ext (s\<lparr>m_subimage := i\<rparr>) i td)"
  using assms by (simp add: seek_subimage_def)

lemma typedesc_sample: "typedesc_of sample_header 0 = Some UINT8"
  "typedesc_of sample_header 1 = Some UINT16"
  by (simp_all add: typedesc_of_def sample_header_def)

lemma seek_sample0: "seek_subimage sample_externals header_parsed 0 0 = (True, selected0)"
  by (simp add: selected0_def typedesc_sample
      seek_subimage_selects [where s = header_parsed and i = 0 and td = UINT8])

lemma first_char_padded:
  "first_char (padded n s) = (case s of [] \<Rightarrow> NUL | c # cs \<Rightarrow> c)"
  by (cases s; cases n) (simp_all add: first_char_def padded_def)

lemma first_char_replicate: "0 < n \<Longrightarrow> first_char (replicate n c) = c"
  by (cases n) (simp_all add: first_char_def)

lemma c_string_padded:
  "NUL \<notin> set s \<Longrightarrow> length s < n \<Longrightarrow> c_string (padded n s) = AStr s"
  by (auto simp: c_string_def padded_def takeWhile_append)

lemma sample_isnan: "isnan 0xFFFFFFFF" "\<not> isnan 0x41C00000"
  by (simp_all add: isnan_def)

lemma selected0_eq:
  "selected0 = load_subimage sample_externals (header_parsed\<lparr>m_subimage := 0\<rparr>) 0 UINT8"
  using seek_sample0
  by (simp add: typedesc_sample
      seek_subimage_selects [where s = header_parsed and i = 0 and td = UINT8])

lemma selected0_fields [simp]: "m_subimage selected0 = 0" "header selected0 = sample_header"
  by (simp_all add: selected0_eq)

lemma sample_fields [simp]:
  "m_userBuf header_parsed = []" "io header_parsed = []" "\<not> m_rawcolor header_parsed"
  "UserSize sample_header = 4" "ImageDescriptor sample_header 0 = kCbYCrY"
  "ImageDescriptor sample_header 1 = kLuma" "ImageElementComponentCount sample_header 1 = 1"
  by (simp_all add: header_parsed_def new_input_def sample_header_def)

lemma selected0_layout:
  "nchannels (m_spec selected0) = 3" "channelnames (m_spec selected0) = [''R'', ''G'', ''B'']"
  "\<not> m_rawcolor selected0"
proof -
  show n: "nchannels (m_spec selected0) = 3"
    by (simp add: selected0_eq load_subimage_layout built_spec_layout fill_channel_names_def
        set_default_channel_names_def split: prod.splits)
  show "channelnames (m_spec selected0) = [''R'', ''G'', ''B'']"
    by (simp add: selected0_eq load_subimage_layout built_spec_layout fill_channel_names_def
        set_default_channel_names_def sample_externals_def)
  have "m_rawcolor selected0 = (m_rawcolor (header_parsed\<lparr>m_subimage := 0\<rparr>)
      \<or> nchannels (m_spec selected0) = 1)"
    unfolding selected0_eq by (rule load_subimage_rawcolor)
  with n show "\<not> m_rawcolor selected0" by simp
qed

lemma seek_sample1: "seek_subimage sample_externals selected0 1 0 = (True, selected1)"
  by (simp add: selected1_def typedesc_sample
      seek_subimage_selects [where s = selected0 and i = 1 and td = UINT16])

lemma selected1_eq:
  "selected1 = load_subimage sample_externals (selected0\<lparr>m_subimage := 1\<rparr>) 1 UINT16"
  using seek_sample1
  by (simp add: typedesc_sample
      seek_subimage_selects [where s = selected0 and i = 1 and td = UINT16])

lemma selected1_fields [simp]: "m_subimage selected1 = 1" "header selected1 = sample_header"
  by (simp_all add: selected1_eq)

lemma selected1_nchannels: "nchannels (m_spec selected1) = 1"
  by (simp add: selected1_eq load_subimage_layout built_spec_layout fill_channel_names_def
      emplace_back_def)

section \<open>The lookup helper (C8)\<close>

text \<open>
  C8, as amended. For every key, every default and every table of at least two pairs,
  \<^verbatim>\<open>lookup\<close> returns the value of the first pair, in the order of the table, whose
  code is the key, and the default when no pair has that code, and it prints nothing:
  the call has no effect but its result. For a table of fewer than two pairs the
  assertion prints its message; a release build then still returns the first match or
  the default, and a debug build aborts.
\<close>

theorem lookup_first_match_or_default:
  "(2 \<le> length values \<longrightarrow> fst (lookup debug key values defaultval) = [])
   \<and> (2 \<le> length values \<or> \<not> debug \<longrightarrow>
        (\<forall>i < length values. fst (values ! i) = key \<and> (\<forall>j < i. fst (values ! j) \<noteq> key)
            \<longrightarrow> snd (lookup debug key values defaultval) = Some (snd (values ! i)))
        \<and> (key \<notin> fst ` set values
            \<longrightarrow> snd (lookup debug key values defaultval) = Some defaultval))
   \<and> (\<not> 2 \<le> length values \<longrightarrow>
        fst (lookup debug key values defaultval) \<noteq> []
        \<and> (debug \<longrightarrow> snd (lookup debug key values defaultval) = None))"
proof (intro conjI impI allI)
  assume "2 \<le> length values"
  then show "fst (lookup debug key values defaultval) = []"
    by (simp add: lookup_table)
next
  fix i
  assume r: "2 \<le> length values \<or> \<not> debug" and i: "i < length values"
    and m: "fst (values ! i) = key \<and> (\<forall>j < i. fst (values ! j) \<noteq> key)"
  from i m have "find (\<lambda>v. fst v = key) values = Some (values ! i)"
    by (simp add: find_first_match)
  with r show "snd (lookup debug key values defaultval) = Some (snd (values ! i))"
    by (auto simp: lookup_table lookup_release)
next
  assume r: "2 \<le> length values \<or> \<not> debug" and "key \<notin> fst ` set values"
  then have "find (\<lambda>v. fst v = key) values = None"
    by (simp add: find_no_match)
  with r show "snd (lookup debug key values defaultval) = Some defaultval"
    by (auto simp: lookup_table lookup_release)
next
  assume "\<not> 2 \<le> length values"
  then show "fst (lookup debug key values defaultval) \<noteq> []"
    by (simp add: lookup_def Let_def)
next
  assume "\<not> 2 \<le> length values" and debug
  then show "snd (lookup debug key values defaultval) = None"
    by (simp add: lookup_def Let_def)
qed

theorem lookup_first_match_or_default_witness:
  "lookup False (2::nat) [(1, ''a''), (2, ''b''), (2, ''c'')] ''d'' = ([], Some ''b'')
   \<and> lookup True (5::nat) [(1, ''a''), (2, ''b''), (2, ''c'')] ''d'' = ([], Some ''d'')
   \<and> snd (lookup False (1::nat) [(1, ''one'')] ''none'') = Some ''one''"
proof -
  have len: "2 \<le> length [(1::nat, ''a''), (2, ''b''), (2, ''c'')]" by simp
  note t1 = lookup_first_match_or_default
    [of "[(1::nat, ''a''), (2, ''b''), (2, ''c'')]" False 2 "''d''"]
  note t2 = lookup_first_match_or_default
    [of "[(1::nat, ''a''), (2, ''b''), (2, ''c'')]" True 5 "''d''"]
  note t3 = lookup_first_match_or_default [of "[(1::nat, ''one'')]" False 1 "''none''"]
  have a1: "fst (lookup False (2::nat) [(1, ''a''), (2, ''b''), (2, ''c'')] ''d'') = []"
    using t1 by simp
  have a2: "snd (lookup False (2::nat) [(1, ''a''), (2, ''b''), (2, ''c'')] ''d'') = Some ''b''"
    using t1 [THEN conjunct2, THEN conjunct1, rule_format, THEN conjunct1, rule_format, of 1]
    by (simp add: less_Suc_eq)
  have b1: "fst (lookup True (5::nat) [(1, ''a''), (2, ''b''), (2, ''c'')] ''d'') = []"
    using t2 by simp
  have b2: "snd (lookup True (5::nat) [(1, ''a''), (2, ''b''), (2, ''c'')] ''d'') = Some ''d''"
    using t2 by simp
  have c: "snd (lookup False (1::nat) [(1, ''one'')] ''none'') = Some ''one''"
    using t3 [THEN conjunct2, THEN conjunct1, rule_format, THEN conjunct1, rule_format, of 0]
    by simp
  from a1 a2 b1 b2 c show ?thesis by (simp add: prod_eq_iff)
qed

text \<open>For a table of one pair the assertion prints its message, in a release build and
  in a debug build, and the debug build returns nothing: the call is not without side
  effect, as the claim has it for every table.\<close>

theorem lookup_short_table_counterexample:
  "fst (lookup False (1::nat) [(1, ''one'')] ''none'') = [''values.size() >= 2'']
   \<and> fst (lookup True (1::nat) [(1, ''one'')] ''none'') = [''values.size() >= 2'']
   \<and> snd (lookup True (1::nat) [(1, ''one'')] ''none'') = None"
  by (simp add: lookup_def)

section \<open>The time code string (C5)\<close>

text \<open>
  C5. The time code is rendered as hours, minutes, seconds and frame, each as two
  decimal digits with a leading zero, joined by colons, except that a semicolon stands
  before the frame of a drop-frame time code. Two digits are what \<^verbatim>\<open>{:02d}\<close> gives
  for a number from 0 to 99, and the fields of a time code are two binary-coded decimal
  digits each. In particular 1, 2, 3, 4 gives \<^verbatim>\<open>01:02:03:04\<close>, and \<^verbatim>\<open>01:02:03;04\<close>
  with drop frame.
\<close>

theorem get_timecode_string_format:
  "(0 \<le> hours tc \<and> hours tc < 100 \<and> 0 \<le> minutes tc \<and> minutes tc < 100
      \<and> 0 \<le> seconds tc \<and> seconds tc < 100 \<and> 0 \<le> frame tc \<and> frame tc < 100
    \<longrightarrow> get_timecode_string tc =
          two_digits (hours tc) @ '':'' @ two_digits (minutes tc) @ '':''
            @ two_digits (seconds tc) @ [if dropFrame tc then CHR '';'' else CHR '':'']
            @ two_digits (frame tc))
   \<and> get_timecode_string \<lparr>hours = 1, minutes = 2, seconds = 3, frame = 4, dropFrame = False\<rparr>
       = ''01:02:03:04''
   \<and> get_timecode_string \<lparr>hours = 1, minutes = 2, seconds = 3, frame = 4, dropFrame = True\<rparr>
       = ''01:02:03;04''"
  by (simp add: get_timecode_string_def fmt_02d_two_digits) (simp add: two_digits_def)

theorem get_timecode_string_format_witness:
  "get_timecode_string \<lparr>hours = 23, minutes = 59, seconds = 7, frame = 12, dropFrame = True\<rparr>
     = ''23:59:07;12''"
  using get_timecode_string_format
    [of "\<lparr>hours = 23, minutes = 59, seconds = 7, frame = 12, dropFrame = True\<rparr>"]
  by (simp add: two_digits_def)

section \<open>The key code (C2)\<close>

text \<open>
  C2 does not hold of the code. The format field is an array of 32 bytes, and
  \<^verbatim>\<open>get_keycode_values\<close> compares all 32 of them with the name, so a field that holds
  \<^verbatim>\<open>8kimax\<close> followed by NUL bytes is not equal to \<^verbatim>\<open>"8kimax"\<close>: the sample header
  has that field, and its key code has 4 perforations per frame and 64 per count, not
  15 and 120.
\<close>

theorem get_keycode_values_8kimax:
  "format sample_header = ''8kimax'' @ replicate 26 NUL
   \<and> length (format sample_header) = 32
   \<and> get_keycode_values sample_externals sample_header = [0, 0, 0, 0, 0, 4, 64]
   \<and> attr selected0 ''smpte:KeyCode'' = Some (AKeyCode [0, 0, 0, 0, 0, 4, 64])"
proof -
  have f: "format sample_header = ''8kimax'' @ replicate 26 NUL"
    by (simp add: sample_header_def padded_def)
  have k: "get_keycode_values sample_externals sample_header = [0, 0, 0, 0, 0, 4, 64]"
    by (simp add: sample_header_def get_keycode_values_def padded_def starts_with_def
        sample_externals_def)
  have "seek_subimage sample_externals header_parsed 0 0 =
      (True, load_subimage sample_externals (header_parsed\<lparr>m_subimage := 0\<rparr>) 0 UINT8)"
    by (simp add: typedesc_sample
        seek_subimage_selects [where s = header_parsed and i = 0 and td = UINT8])
  then have s0: "selected0 = load_subimage sample_externals (header_parsed\<lparr>m_subimage := 0\<rparr>) 0 UINT8"
    by (simp add: selected0_def)
  have fm: "first_char (filmManufacturingIdCode sample_header) \<noteq> NUL"
    by (simp add: sample_header_def first_char_def NUL_def)
  have a: "attr selected0 ''smpte:KeyCode'' = Some (AKeyCode (get_keycode_values sample_externals sample_header))"
    unfolding s0
    by (simp add: attr_load_subimage film_tv_metadata_def statements_Cons statements_Nil
        ea_set_signal ea_attribute_if fm)
  from f k a show ?thesis by simp
qed

text \<open>
  For every header whose format field has its 32 bytes, the string compared is none of
  the five names that \<^verbatim>\<open>get_keycode_values\<close> compares with \<^verbatim>\<open>==\<close>, and the
  perforations per count are 64: the value 120 is never given.
\<close>

theorem keycode_exact_names_dead:
  assumes "length (format h) = 32"
  shows "take 32 (format h) \<notin> {''8kimax'', ''VistaVision'', ''Full Aperture'', ''Academy'', ''3perf''}
       \<and> get_keycode_values ext h ! 6 = 64"
proof -
  have len: "length (take 32 (format h)) = 32" using assms by simp
  have ne: "take 32 (format h) \<noteq> str" if "length str \<noteq> 32" for str
    using len that by auto
  have a: "take 32 (format h) \<noteq> ''8kimax''" by (rule ne) simp
  have b: "take 32 (format h) \<noteq> ''VistaVision''" by (rule ne) simp
  have c: "take 32 (format h) \<noteq> ''Full Aperture''" by (rule ne) simp
  have d: "take 32 (format h) \<noteq> ''Academy''" by (rule ne) simp
  have e: "take 32 (format h) \<noteq> ''3perf''" by (rule ne) simp
  show ?thesis
    using a b c d e by (simp add: get_keycode_values_def Let_def)
qed

theorem keycode_exact_names_dead_witness:
  "length (format sample_header) = 32
   \<and> take 32 (format sample_header) \<noteq> ''8kimax''
   \<and> get_keycode_values sample_externals sample_header ! 6 = 64"
proof -
  have len: "length (format sample_header) = 32"
    by (simp add: sample_header_def padded_def)
  from keycode_exact_names_dead [OF len, of sample_externals] len show ?thesis by simp
qed

section \<open>Selecting a subimage (C3, C4)\<close>

text \<open>
  C3. On every instance with a currently selected subimage (its current index is one
  of the image elements of the header, as it is after every successful \<^verbatim>\<open>open\<close> and
  after every later selection or scanline read: \<open>subimage_selected_open_file\<close>,
  \<open>subimage_selected_run\<close>), selecting the current index again at MIP level 0 returns
  success and leaves the instance as it is: no metadata is derived and nothing is
  read. Selecting an index that is negative or not below the element count of the
  header fails and leaves the instance, its current index included, as it is.
\<close>

theorem seek_subimage_same_or_out_of_range:
  assumes "subimage_selected s"
  shows "seek_subimage ext s (m_subimage s) 0 = (True, s)
       \<and> (i < 0 \<or> i \<ge> ImageElementCount (header s)
            \<longrightarrow> seek_subimage ext s i miplevel = (False, s))"
  using assms by (auto simp: seek_subimage_def subimage_selected_def)

theorem seek_subimage_same_or_out_of_range_witness:
  "subimage_selected selected0
   \<and> m_subimage selected0 = 0
   \<and> seek_subimage sample_externals selected0 0 0 = (True, selected0)
   \<and> seek_subimage sample_externals selected0 2 0 = (False, selected0)
   \<and> seek_subimage sample_externals selected0 (-1) 0 = (False, selected0)"
proof -
  have sel: "subimage_selected selected0" by (simp add: subimage_selected_def)
  from seek_subimage_same_or_out_of_range [OF sel, of sample_externals 2 0]
  have a: "seek_subimage sample_externals selected0 0 0 = (True, selected0)"
    and b: "seek_subimage sample_externals selected0 2 0 = (False, selected0)"
    by simp_all
  from seek_subimage_same_or_out_of_range [OF sel, of sample_externals "-1" 0]
  have c: "seek_subimage sample_externals selected0 (-1) 0 = (False, selected0)"
    by simp
  from sel a b c show ?thesis by simp
qed

text \<open>
  C4. When an index within range, other than the current one, is selected and the
  component data size of its element is none of those the switch knows, the call
  returns false with the message \<^verbatim>\<open>Invalid component data size\<close>, but
  \<^verbatim>\<open>current_subimage()\<close> reports the new index afterwards, not the one selected before;
  the specification is still the old one.
\<close>

theorem seek_subimage_failure_not_atomic:
  assumes "0 \<le> i" "i < ImageElementCount (header s)" "i \<noteq> m_subimage s"
    and "typedesc_of (header s) i = None"
  shows "fst (seek_subimage ext s i 0) = False
       \<and> current_subimage (snd (seek_subimage ext s i 0)) = i
       \<and> current_subimage (snd (seek_subimage ext s i 0)) \<noteq> current_subimage s
       \<and> m_spec (snd (seek_subimage ext s i 0)) = m_spec s
       \<and> errors (snd (seek_subimage ext s i 0)) = errors s @ [''Invalid component data size'']"
  using assms by (simp add: seek_subimage_def current_subimage_def errorfmt_def)

theorem seek_subimage_failure_not_atomic_witness:
  "fst (seek_subimage sample_externals
         (header_parsed\<lparr>m_subimage := 0, header := sample_header\<lparr>ComponentDataSize := (\<lambda>i. kDataSizeOther)\<rparr>\<rparr>) 1 0) = False
   \<and> current_subimage (snd (seek_subimage sample_externals
         (header_parsed\<lparr>m_subimage := 0, header := sample_header\<lparr>ComponentDataSize := (\<lambda>i. kDataSizeOther)\<rparr>\<rparr>) 1 0)) = 1"
  using seek_subimage_failure_not_atomic [of 1
      "header_parsed\<lparr>m_subimage := 0, header := sample_header\<lparr>ComponentDataSize := (\<lambda>i. kDataSizeOther)\<rparr>\<rparr>"
      sample_externals]
  by (simp add: typedesc_of_None)

section \<open>Header fields with a value for "unset" (C1)\<close>

text \<open>
  C1, as amended. After a subimage has been selected, each header field that
  \<^verbatim>\<open>seek_subimage\<close> tests against a value for "unset" is in the metadata as follows:
  the 33 fields that lines 422-454 set through the macros, the copyright, creator and
  project fields, the description of the element, the time code and the user bits. A
  32-bit field equal to \<^verbatim>\<open>0xFFFFFFFF\<close>, a float field that is a NaN and a byte field equal to
  \<^verbatim>\<open>0xFF\<close> have no attribute; with any other value the attribute is present and holds
  that value. A string field has no attribute when its first byte is \<^verbatim>\<open>0xFF\<close> and
  also when its first byte is NUL (the empty string); otherwise the attribute is
  present and holds the C string of the field.
\<close>

theorem seek_subimage_sentinel_fields:
  assumes "seek_subimage ext s subimage miplevel = (True, s')"
    and "subimage \<noteq> m_subimage s"
    and "h = header s"
  shows "attr s' ''dpx:EncryptKey'' = unless (EncryptKey h = 0xFFFFFFFF) (AUInt (EncryptKey h))
     \<and> attr s' ''dpx:DittoKey'' = unless (DittoKey h = 0xFFFFFFFF) (AUInt (DittoKey h))
     \<and> attr s' ''dpx:LowData'' = unless (LowData h subimage = 0xFFFFFFFF) (AUInt (LowData h subimage))
     \<and> attr s' ''dpx:LowQuantity'' = unless (isnan (LowQuantity h subimage)) (AFloat (LowQuantity h subimage))
     \<and> attr s' ''dpx:HighData'' = unless (HighData h subimage = 0xFFFFFFFF) (AUInt (HighData h subimage))
     \<and> attr s' ''dpx:HighQuantity'' = unless (isnan (HighQuantity h subimage)) (AFloat (HighQuantity h subimage))
     \<and> attr s' ''dpx:EndOfLinePadding'' = unless (EndOfLinePadding h subimage = 0xFFFFFFFF) (AUInt (EndOfLinePadding h subimage))
     \<and> attr s' ''dpx:EndOfImagePadding'' = unless (EndOfImagePadding h subimage = 0xFFFFFFFF) (AUInt (EndOfImagePadding h subimage))
     \<and> attr s' ''dpx:XScannedSize'' = unless (isnan (XScannedSize h)) (AFloat (XScannedSize h))
     \<and> attr s' ''dpx:YScannedSize'' = unless (isnan (YScannedSize h)) (AFloat (YScannedSize h))
     \<and> attr s' ''dpx:FramePosition'' = unless (FramePosition h = 0xFFFFFFFF) (AUInt (FramePosition h))
     \<and> attr s' ''dpx:SequenceLength'' = unless (SequenceLength h = 0xFFFFFFFF) (AUInt (SequenceLength h))
     \<and> attr s' ''dpx:HeldCount'' = unless (HeldCount h = 0xFFFFFFFF) (AUInt (HeldCount h))
     \<and> attr s' ''dpx:FrameRate'' = unless (isnan (FrameRate h)) (AFloat (FrameRate h))
     \<and> attr s' ''dpx:ShutterAngle'' = unless (isnan (ShutterAngle h)) (AFloat (ShutterAngle h))
     \<and> attr s' ''dpx:Version'' =
         unless (first_char (version h) = char_FF \<or> first_char (version h) = NUL) (c_string (version h))
     \<and> attr s' ''dpx:Format'' =
         unless (first_char (format h) = char_FF \<or> first_char (format h) = NUL) (c_string (format h))
     \<and> attr s' ''dpx:FrameId'' =
         unless (first_char (frameId h) = char_FF \<or> first_char (frameId h) = NUL) (c_string (frameId h))
     \<and> attr s' ''dpx:SlateInfo'' =
         unless (first_char (slateInfo h) = char_FF \<or> first_char (slateInfo h) = NUL) (c_string (slateInfo h))
     \<and> attr s' ''dpx:SourceImageFileName'' =
         unless (first_char (sourceImageFileName h) = char_FF \<or> first_char (sourceImageFileName h) = NUL) (c_string (sourceImageFileName h))
     \<and> attr s' ''dpx:InputDevice'' =
         unless (first_char (inputDevice h) = char_FF \<or> first_char (inputDevice h) = NUL) (c_string (inputDevice h))
     \<and> attr s' ''dpx:InputDeviceSerialNumber'' =
         unless (first_char (inputDeviceSerialNumber h) = char_FF \<or> first_char (inputDeviceSerialNumber h) = NUL) (c_string (inputDeviceSerialNumber h))
     \<and> attr s' ''dpx:Interlace'' = unless (Interlace h = 0xFF) (AInt (uint (Interlace h)))
     \<and> attr s' ''dpx:FieldNumber'' = unless (FieldNumber h = 0xFF) (AInt (uint (FieldNumber h)))
     \<and> attr s' ''dpx:HorizontalSampleRate'' = unless (isnan (HorizontalSampleRate h)) (AFloat (HorizontalSampleRate h))
     \<and> attr s' ''dpx:VerticalSampleRate'' = unless (isnan (VerticalSampleRate h)) (AFloat (VerticalSampleRate h))
     \<and> attr s' ''dpx:TemporalFrameRate'' = unless (isnan (TemporalFrameRate h)) (AFloat (TemporalFrameRate h))
     \<and> attr s' ''dpx:TimeOffset'' = unless (isnan (TimeOffset h)) (AFloat (TimeOffset h))
     \<and> attr s' ''dpx:BlackLevel'' = unless (isnan (BlackLevel h)) (AFloat (BlackLevel h))
     \<and> attr s' ''dpx:BlackGain'' = unless (isnan (BlackGain h)) (AFloat (BlackGain h))
     \<and> attr s' ''dpx:BreakPoint'' = unless (isnan (BreakPoint h)) (AFloat (BreakPoint h))
     \<and> attr s' ''dpx:WhiteLevel'' = unless (isnan (WhiteLevel h)) (AFloat (WhiteLevel h))
     \<and> attr s' ''dpx:IntegrationTimes'' = unless (isnan (IntegrationTimes h)) (AFloat (IntegrationTimes h))
     \<and> attr s' ''Copyright'' =
         unless (first_char (copyright h) = char_FF \<or> first_char (copyright h) = NUL) (c_string (copyright h))
     \<and> attr s' ''Software'' =
         unless (first_char (creator h) = char_FF \<or> first_char (creator h) = NUL) (c_string (creator h))
     \<and> attr s' ''DocumentName'' =
         unless (first_char (project h) = char_FF \<or> first_char (project h) = NUL) (c_string (project h))
     \<and> attr s' ''ImageDescription'' =
         unless (first_char (Description h subimage) = char_FF \<or> first_char (Description h subimage) = NUL) (c_string (Description h subimage))
     \<and> attr s' ''smpte:TimeCode'' =
         unless (timeCode h = 0xFFFFFFFF) (ATimeCode (timeCode h) (userBits h))
     \<and> attr s' ''dpx:TimeCode'' =
         unless (timeCode h = 0xFFFFFFFF)
           (AStr (get_timecode_string (Imf_TimeCode ext (timeCode h) (userBits h))))
     \<and> attr s' ''dpx:UserBits'' = unless (userBits h = 0xFFFFFFFF) (AUInt (userBits h))"
proof -
  have key: "\<And>name. name \<notin> set general_names \<Longrightarrow> name \<notin> set film_tv_names \<Longrightarrow>
      name \<noteq> ''dpx:UserData'' \<Longrightarrow>
      \<exists>spec. extra_attribs spec name = None
          \<and> attr s' name = extra_attribs (dpx_metadata h subimage spec) name"
    unfolding assms(3) by (rule attr_new_subimage [OF assms(1,2)])
  from assms(1,2) obtain td where
    s': "s' = load_subimage ext (s\<lparr>m_subimage := subimage\<rparr>) subimage td"
    by (rule seek_subimage_new)
  note names = general_names_def film_tv_names_def
  note unf = dpx_metadata_def statements_Cons statements_Nil ea_macros unless_def
  note pre = attr_load_subimage ea_film_tv_metadata film_tv_names_def ea_dpx_metadata
    dpx_names_def
  note gen = general_metadata_def statements_Cons statements_Nil ea_attribute ea_attribute_if
    ea_attribute_looked_up ea_set_linearity ea_fill_channel_names ea_set_origin ea_ctor
    unless_def
  note film = film_tv_metadata_def statements_Cons statements_Nil ea_attribute_if
    ea_set_packing ea_set_signal unless_def
  have none: "extra_attribs
       (dpx_metadata (header s) subimage
         (general_metadata ext (header s) subimage
           (fill_channel_names ext (header s) subimage (m_rawcolor s)
             (set_origin (header s)
               (ImageSpec_ctor ext (sint (Width (header s))) (sint (Height (header s)))
                  (ImageElementComponentCount (header s) subimage) td))))) name = None"
    if "name \<in> {''smpte:TimeCode'', ''dpx:TimeCode'', ''dpx:UserBits''}" for name
    using that
    by (auto simp: ea_dpx_metadata dpx_names_def ea_general_metadata general_names_def
        ea_fill_channel_names ea_set_origin ea_ctor)
  have a0: "attr s' ''dpx:EncryptKey'' = unless (EncryptKey h = 0xFFFFFFFF) (AUInt (EncryptKey h))"
    using key [of "''dpx:EncryptKey''"] by (auto simp: names unf)
  have a1: "attr s' ''dpx:DittoKey'' = unless (DittoKey h = 0xFFFFFFFF) (AUInt (DittoKey h))"
    using key [of "''dpx:DittoKey''"] by (auto simp: names unf)
  have a2: "attr s' ''dpx:LowData'' = unless (LowData h subimage = 0xFFFFFFFF) (AUInt (LowData h subimage))"
    using key [of "''dpx:LowData''"] by (auto simp: names unf)
  have a3: "attr s' ''dpx:LowQuantity'' = unless (isnan (LowQuantity h subimage)) (AFloat (LowQuantity h subimage))"
    using key [of "''dpx:LowQuantity''"] by (auto simp: names unf)
  have a4: "attr s' ''dpx:HighData'' = unless (HighData h subimage = 0xFFFFFFFF) (AUInt (HighData h subimage))"
    using key [of "''dpx:HighData''"] by (auto simp: names unf)
  have a5: "attr s' ''dpx:HighQuantity'' = unless (isnan (HighQuantity h subimage)) (AFloat (HighQuantity h subimage))"
    using key [of "''dpx:HighQuantity''"] by (auto simp: names unf)
  have a6: "attr s' ''dpx:EndOfLinePadding'' = unless (EndOfLinePadding h subimage = 0xFFFFFFFF) (AUInt (EndOfLinePadding h subimage))"
    using key [of "''dpx:EndOfLinePadding''"] by (auto simp: names unf)
  have a7: "attr s' ''dpx:EndOfImagePadding'' = unless (EndOfImagePadding h subimage = 0xFFFFFFFF) (AUInt (EndOfImagePadding h subimage))"
    using key [of "''dpx:EndOfImagePadding''"] by (auto simp: names unf)
  have a8: "attr s' ''dpx:XScannedSize'' = unless (isnan (XScannedSize h)) (AFloat (XScannedSize h))"
    using key [of "''dpx:XScannedSize''"] by (auto simp: names unf)
  have a9: "attr s' ''dpx:YScannedSize'' = unless (isnan (YScannedSize h)) (AFloat (YScannedSize h))"
    using key [of "''dpx:YScannedSize''"] by (auto simp: names unf)
  have a10: "attr s' ''dpx:FramePosition'' = unless (FramePosition h = 0xFFFFFFFF) (AUInt (FramePosition h))"
    using key [of "''dpx:FramePosition''"] by (auto simp: names unf)
  have a11: "attr s' ''dpx:SequenceLength'' = unless (SequenceLength h = 0xFFFFFFFF) (AUInt (SequenceLength h))"
    using key [of "''dpx:SequenceLength''"] by (auto simp: names unf)
  have a12: "attr s' ''dpx:HeldCount'' = unless (HeldCount h = 0xFFFFFFFF) (AUInt (HeldCount h))"
    using key [of "''dpx:HeldCount''"] by (auto simp: names unf)
  have a13: "attr s' ''dpx:FrameRate'' = unless (isnan (FrameRate h)) (AFloat (FrameRate h))"
    using key [of "''dpx:FrameRate''"] by (auto simp: names unf)
  have a14: "attr s' ''dpx:ShutterAngle'' = unless (isnan (ShutterAngle h)) (AFloat (ShutterAngle h))"
    using key [of "''dpx:ShutterAngle''"] by (auto simp: names unf)
  have a15: "attr s' ''dpx:Version'' =
         unless (first_char (version h) = char_FF \<or> first_char (version h) = NUL) (c_string (version h))"
    using key [of "''dpx:Version''"] by (auto simp: names unf)
  have a16: "attr s' ''dpx:Format'' =
         unless (first_char (format h) = char_FF \<or> first_char (format h) = NUL) (c_string (format h))"
    using key [of "''dpx:Format''"] by (auto simp: names unf)
  have a17: "attr s' ''dpx:FrameId'' =
         unless (first_char (frameId h) = char_FF \<or> first_char (frameId h) = NUL) (c_string (frameId h))"
    using key [of "''dpx:FrameId''"] by (auto simp: names unf)
  have a18: "attr s' ''dpx:SlateInfo'' =
         unless (first_char (slateInfo h) = char_FF \<or> first_char (slateInfo h) = NUL) (c_string (slateInfo h))"
    using key [of "''dpx:SlateInfo''"] by (auto simp: names unf)
  have a19: "attr s' ''dpx:SourceImageFileName'' =
         unless (first_char (sourceImageFileName h) = char_FF \<or> first_char (sourceImageFileName h) = NUL) (c_string (sourceImageFileName h))"
    using key [of "''dpx:SourceImageFileName''"] by (auto simp: names unf)
  have a20: "attr s' ''dpx:InputDevice'' =
         unless (first_char (inputDevice h) = char_FF \<or> first_char (inputDevice h) = NUL) (c_string (inputDevice h))"
    using key [of "''dpx:InputDevice''"] by (auto simp: names unf)
  have a21: "attr s' ''dpx:InputDeviceSerialNumber'' =
         unless (first_char (inputDeviceSerialNumber h) = char_FF \<or> first_char (inputDeviceSerialNumber h) = NUL) (c_string (inputDeviceSerialNumber h))"
    using key [of "''dpx:InputDeviceSerialNumber''"] by (auto simp: names unf)
  have a22: "attr s' ''dpx:Interlace'' = unless (Interlace h = 0xFF) (AInt (uint (Interlace h)))"
    using key [of "''dpx:Interlace''"] by (auto simp: names unf)
  have a23: "attr s' ''dpx:FieldNumber'' = unless (FieldNumber h = 0xFF) (AInt (uint (FieldNumber h)))"
    using key [of "''dpx:FieldNumber''"] by (auto simp: names unf)
  have a24: "attr s' ''dpx:HorizontalSampleRate'' = unless (isnan (HorizontalSampleRate h)) (AFloat (HorizontalSampleRate h))"
    using key [of "''dpx:HorizontalSampleRate''"] by (auto simp: names unf)
  have a25: "attr s' ''dpx:VerticalSampleRate'' = unless (isnan (VerticalSampleRate h)) (AFloat (VerticalSampleRate h))"
    using key [of "''dpx:VerticalSampleRate''"] by (auto simp: names unf)
  have a26: "attr s' ''dpx:TemporalFrameRate'' = unless (isnan (TemporalFrameRate h)) (AFloat (TemporalFrameRate h))"
    using key [of "''dpx:TemporalFrameRate''"] by (auto simp: names unf)
  have a27: "attr s' ''dpx:TimeOffset'' = unless (isnan (TimeOffset h)) (AFloat (TimeOffset h))"
    using key [of "''dpx:TimeOffset''"] by (auto simp: names unf)
  have a28: "attr s' ''dpx:BlackLevel'' = unless (isnan (BlackLevel h)) (AFloat (BlackLevel h))"
    using key [of "''dpx:BlackLevel''"] by (auto simp: names unf)
  have a29: "attr s' ''dpx:BlackGain'' = unless (isnan (BlackGain h)) (AFloat (BlackGain h))"
    using key [of "''dpx:BlackGain''"] by (auto simp: names unf)
  have a30: "attr s' ''dpx:BreakPoint'' = unless (isnan (BreakPoint h)) (AFloat (BreakPoint h))"
    using key [of "''dpx:BreakPoint''"] by (auto simp: names unf)
  have a31: "attr s' ''dpx:WhiteLevel'' = unless (isnan (WhiteLevel h)) (AFloat (WhiteLevel h))"
    using key [of "''dpx:WhiteLevel''"] by (auto simp: names unf)
  have a32: "attr s' ''dpx:IntegrationTimes'' = unless (isnan (IntegrationTimes h)) (AFloat (IntegrationTimes h))"
    using key [of "''dpx:IntegrationTimes''"] by (auto simp: names unf)
  have g0: "attr s' ''Copyright'' =
         unless (first_char (copyright h) = char_FF \<or> first_char (copyright h) = NUL) (c_string (copyright h))"
    unfolding s' assms(3) by (simp add: pre) (simp add: gen)
  have g1: "attr s' ''Software'' =
         unless (first_char (creator h) = char_FF \<or> first_char (creator h) = NUL) (c_string (creator h))"
    unfolding s' assms(3) by (simp add: pre) (simp add: gen)
  have g2: "attr s' ''DocumentName'' =
         unless (first_char (project h) = char_FF \<or> first_char (project h) = NUL) (c_string (project h))"
    unfolding s' assms(3) by (simp add: pre) (simp add: gen)
  have g3: "attr s' ''ImageDescription'' =
         unless (first_char (Description h subimage) = char_FF \<or> first_char (Description h subimage) = NUL) (c_string (Description h subimage))"
    unfolding s' assms(3) by (simp add: pre) (simp add: gen)
  have f0: "attr s' ''smpte:TimeCode'' =
         unless (timeCode h = 0xFFFFFFFF) (ATimeCode (timeCode h) (userBits h))"
    unfolding s' assms(3) by (simp add: attr_load_subimage) (simp add: film none)
  have f1: "attr s' ''dpx:TimeCode'' =
         unless (timeCode h = 0xFFFFFFFF)
           (AStr (get_timecode_string (Imf_TimeCode ext (timeCode h) (userBits h))))"
    unfolding s' assms(3) by (simp add: attr_load_subimage) (simp add: film none)
  have f2: "attr s' ''dpx:UserBits'' = unless (userBits h = 0xFFFFFFFF) (AUInt (userBits h))"
    unfolding s' assms(3) by (simp add: attr_load_subimage) (simp add: film none)
  show ?thesis
    by (intro conjI) (fact a0 a1 a2 a3 a4 a5 a6 a7 a8 a9 a10 a11 a12 a13 a14 a15 a16 a17 a18 a19 a20 a21 a22 a23 a24 a25 a26 a27 a28 a29 a30 a31 a32 g0 g1 g2 g3 f0 f1 f2)+
qed

theorem seek_subimage_sentinel_fields_witness:
  "seek_subimage sample_externals header_parsed 0 0 = (True, selected0)
   \<and> 0 \<noteq> m_subimage header_parsed
   \<and> attr selected0 ''dpx:EncryptKey'' = None
   \<and> attr selected0 ''dpx:DittoKey'' = Some (AUInt 1)
   \<and> attr selected0 ''dpx:XScannedSize'' = None
   \<and> attr selected0 ''dpx:FrameRate'' = Some (AFloat 0x41C00000)
   \<and> attr selected0 ''dpx:InputDevice'' = None
   \<and> attr selected0 ''dpx:InputDeviceSerialNumber'' = Some (AStr ''SN1'')
   \<and> attr selected0 ''dpx:Interlace'' = Some (AInt 0)
   \<and> attr selected0 ''dpx:FieldNumber'' = None"
proof -
  have ne: "0 \<noteq> m_subimage header_parsed" by simp
  have h: "sample_header = header header_parsed" by simp
  note all = seek_subimage_sentinel_fields [OF seek_sample0 ne h]
  have "attr selected0 ''dpx:EncryptKey'' = None"
    "attr selected0 ''dpx:DittoKey'' = Some (AUInt 1)"
    "attr selected0 ''dpx:XScannedSize'' = None"
    "attr selected0 ''dpx:FrameRate'' = Some (AFloat 0x41C00000)"
    "attr selected0 ''dpx:InputDevice'' = None"
    "attr selected0 ''dpx:InputDeviceSerialNumber'' = Some (AStr ''SN1'')"
    "attr selected0 ''dpx:Interlace'' = Some (AInt 0)"
    "attr selected0 ''dpx:FieldNumber'' = None"
    using all
    by (simp_all add: unless_def sample_header_def sample_isnan first_char_padded
        first_char_replicate c_string_padded NUL_def char_FF_def)
  with seek_sample0 ne show ?thesis by simp
qed

text \<open>The version field of the sample header is eight NUL bytes. Its first byte is not
  \<^verbatim>\<open>0xFF\<close>, so the field is not at the value the claim calls unset, and yet the
  metadata has no \<^verbatim>\<open>dpx:Version\<close>.\<close>

theorem empty_string_field_counterexample:
  "version sample_header = replicate 8 NUL
   \<and> first_char (version sample_header) \<noteq> char_FF
   \<and> seek_subimage sample_externals header_parsed 0 0 = (True, selected0)
   \<and> attr selected0 ''dpx:Version'' = None"
proof -
  have v: "version sample_header = replicate 8 NUL"
    by (simp add: sample_header_def padded_def)
  then have f: "first_char (version sample_header) = NUL"
    by (simp add: first_char_replicate)
  have ne: "0 \<noteq> m_subimage header_parsed" by simp
  from attr_new_subimage [OF seek_sample0 ne, of "''dpx:Version''"]
  have "attr selected0 ''dpx:Version'' = None"
    by (auto simp: general_names_def film_tv_names_def dpx_metadata_def statements_Cons
        statements_Nil ea_macros f)
  with v f seek_sample0 show ?thesis by (simp add: NUL_def char_FF_def)
qed

section \<open>The pixel aspect ratio (C10)\<close>

text \<open>
  C10. After a subimage has been selected, \<^verbatim>\<open>PixelAspectRatio\<close> is present. When the
  second aspect-ratio field of the header (the denominator) is 0 the attribute is 1.0
  and nothing is divided; otherwise it is the float quotient of the first field by the
  second. No division has the divisor 0, whatever the header holds.
\<close>

theorem pixel_aspect_ratio_guarded:
  assumes "seek_subimage ext s subimage miplevel = (True, s')" "subimage \<noteq> m_subimage s"
    and "h = header s"
  shows "attr s' ''PixelAspectRatio'' = Some (AFloat (fst (pixel_aspect_ratio ext h)))
       \<and> (AspectRatio h 1 = 0 \<longrightarrow> pixel_aspect_ratio ext h = (float_one, []))
       \<and> (AspectRatio h 1 \<noteq> 0 \<longrightarrow>
            pixel_aspect_ratio ext h =
              (float_div ext (u32_to_float ext (AspectRatio h 0))
                 (u32_to_float ext (AspectRatio h 1)), [AspectRatio h 1]))
       \<and> 0 \<notin> set (snd (pixel_aspect_ratio ext h))"
  using attr_PixelAspectRatio [OF assms(1,2)] assms(3)
  by (simp add: pixel_aspect_ratio_def)

theorem pixel_aspect_ratio_guarded_witness:
  "seek_subimage sample_externals header_parsed 0 0 = (True, selected0)
   \<and> 0 \<noteq> m_subimage header_parsed
   \<and> AspectRatio sample_header 1 = 0
   \<and> attr selected0 ''PixelAspectRatio'' = Some (AFloat float_one)
   \<and> pixel_aspect_ratio sample_externals (sample_header\<lparr>AspectRatio := (\<lambda>i. if i = 0 then 4 else 3)\<rparr>)
       = (float_div sample_externals (u32_to_float sample_externals 4)
            (u32_to_float sample_externals 3), [3])"
proof -
  have ne: "0 \<noteq> m_subimage header_parsed" by simp
  have h: "sample_header = header header_parsed" by simp
  have z: "AspectRatio sample_header 1 = 0" by (simp add: sample_header_def)
  from pixel_aspect_ratio_guarded [OF seek_sample0 ne h] z
  have a: "attr selected0 ''PixelAspectRatio'' = Some (AFloat float_one)" by simp
  have b: "pixel_aspect_ratio sample_externals
        (sample_header\<lparr>AspectRatio := (\<lambda>i. if i = 0 then 4 else 3)\<rparr>)
      = (float_div sample_externals (u32_to_float sample_externals 4)
            (u32_to_float sample_externals 3), [3])"
    by (simp add: pixel_aspect_ratio_def)
  from seek_sample0 ne z a b show ?thesis by simp
qed

section \<open>The video signal (C6)\<close>

text \<open>
  C6. After a subimage has been selected: for the video signal \<^verbatim>\<open>k255\<close>, the one
  entry of the table whose string is the null pointer, there is no \<^verbatim>\<open>dpx:Signal\<close>
  attribute at all; for a video signal that is not in the table the attribute is the
  default string \<^verbatim>\<open>Undefined\<close>; for every other entry of the table the attribute is
  the string of the entry.
\<close>

theorem signal_attribute:
  assumes "seek_subimage ext s subimage miplevel = (True, s')" "subimage \<noteq> m_subimage s"
    and "h = header s"
  shows "(Signal h = k255 \<longrightarrow> attr s' ''dpx:Signal'' = None)
       \<and> (Signal h \<notin> fst ` set signal_table \<longrightarrow> attr s' ''dpx:Signal'' = Some (AStr ''Undefined''))
       \<and> (\<forall>str. (Signal h, Some str) \<in> set signal_table \<longrightarrow>
            attr s' ''dpx:Signal'' = Some (AStr str))
       \<and> (\<forall>v. (Signal h, v) \<in> set signal_table \<longrightarrow> v = None \<longrightarrow> Signal h = k255)"
  unfolding attr_Signal [OF assms(1,2)] assms(3) lookup_signal
  by (cases "Signal (header s)") (simp_all add: signal_table_def)

theorem signal_attribute_witness:
  "seek_subimage sample_externals header_parsed 0 0 = (True, selected0)
   \<and> 0 \<noteq> m_subimage header_parsed
   \<and> Signal sample_header = k255
   \<and> attr selected0 ''dpx:Signal'' = None
   \<and> attr (snd (seek_subimage sample_externals
              (header_parsed\<lparr>header := sample_header\<lparr>Signal := kPAL\<rparr>\<rparr>) 0 0)) ''dpx:Signal''
       = Some (AStr ''PAL'')
   \<and> attr (snd (seek_subimage sample_externals
              (header_parsed\<lparr>header := sample_header\<lparr>Signal := kVideoSignalOther\<rparr>\<rparr>) 0 0)) ''dpx:Signal''
       = Some (AStr ''Undefined'')"
proof -
  have ne: "0 \<noteq> m_subimage header_parsed" by simp
  have h: "sample_header = header header_parsed" by simp
  have z: "Signal sample_header = k255" by (simp add: sample_header_def)
  from signal_attribute [OF seek_sample0 ne h] z
  have a: "attr selected0 ''dpx:Signal'' = None" by simp
  have sk: "seek_subimage sample_externals (header_parsed\<lparr>header := sample_header\<lparr>Signal := sg\<rparr>\<rparr>) 0 0
      = (True, snd (seek_subimage sample_externals
              (header_parsed\<lparr>header := sample_header\<lparr>Signal := sg\<rparr>\<rparr>) 0 0))" for sg
    by (simp add: seek_subimage_def typedesc_of_def header_parsed_def new_input_def
        sample_header_def)
  have ne': "0 \<noteq> m_subimage (header_parsed\<lparr>header := sample_header\<lparr>Signal := sg\<rparr>\<rparr>)" for sg
    by simp
  from signal_attribute [OF sk [of kPAL] ne' refl]
  have b: "attr (snd (seek_subimage sample_externals
              (header_parsed\<lparr>header := sample_header\<lparr>Signal := kPAL\<rparr>\<rparr>) 0 0)) ''dpx:Signal''
       = Some (AStr ''PAL'')"
    by (simp add: signal_table_def)
  from signal_attribute [OF sk [of kVideoSignalOther] ne' refl]
  have c: "attr (snd (seek_subimage sample_externals
              (header_parsed\<lparr>header := sample_header\<lparr>Signal := kVideoSignalOther\<rparr>\<rparr>) 0 0)) ''dpx:Signal''
       = Some (AStr ''Undefined'')"
    by (simp add: signal_table_def)
  from seek_sample0 ne z a b c show ?thesis by simp
qed

section \<open>The user data (C7)\<close>

text \<open>
  C7. Over any run of selections and scanline reads on an instance, the stream is asked
  for the user data at most once. It is asked by the first selection that builds a
  specification while the buffer is empty and the user size of the header is neither 0
  nor \<^verbatim>\<open>0xFFFFFFFF\<close>; that selection leaves a buffer of that size, which is not empty.
  From then on every call keeps the buffer and asks the stream for no user data, and a
  selection attaches the buffer it finds as \<^verbatim>\<open>dpx:UserData\<close>. Only \<^verbatim>\<open>close\<close>
  empties the buffer.
\<close>

theorem user_data_read_at_most_once:
  "user_data_reads (run ext calls s) \<le> user_data_reads s + 1
   \<and> (m_userBuf s \<noteq> [] \<longrightarrow>
        m_userBuf (run ext calls s) = m_userBuf s
        \<and> user_data_reads (run ext calls s) = user_data_reads s)
   \<and> (user_data_reads (run ext calls s) = user_data_reads s + 1 \<longrightarrow>
        m_userBuf (run ext calls s) \<noteq> [])
   \<and> (seek_subimage ext s i miplevel = (True, s') \<and> i \<noteq> m_subimage s \<longrightarrow>
        (if m_userBuf s = [] \<and> UserSize (header s) \<noteq> 0 \<and> UserSize (header s) \<noteq> 0xFFFFFFFF
         then io s' = io s @ [EvReadUserData (unat (UserSize (header s)))]
              \<and> length (m_userBuf s') = unat (UserSize (header s)) \<and> m_userBuf s' \<noteq> []
         else io s' = io s \<and> m_userBuf s' = m_userBuf s)
        \<and> attr s' ''dpx:UserData'' =
            (if m_userBuf s' = [] then None
             else Some (AUChars (sint (UserSize (header s))) (m_userBuf s'))))
   \<and> m_userBuf (snd (close s)) = []"
proof -
  have run: "cache_kept s (run ext calls s)" by (rule kept_run)
  have step: "(if m_userBuf s = [] \<and> UserSize (header s) \<noteq> 0 \<and> UserSize (header s) \<noteq> 0xFFFFFFFF
         then io s' = io s @ [EvReadUserData (unat (UserSize (header s)))]
              \<and> length (m_userBuf s') = unat (UserSize (header s)) \<and> m_userBuf s' \<noteq> []
         else io s' = io s \<and> m_userBuf s' = m_userBuf s)"
    if a: "seek_subimage ext s i miplevel = (True, s')" and b: "i \<noteq> m_subimage s"
  proof -
    from a b obtain td where
      s': "s' = load_subimage ext (s\<lparr>m_subimage := i\<rparr>) i td"
      by (rule seek_subimage_new)
    let ?s1 = "(s\<lparr>m_subimage := i\<rparr>)\<lparr>m_spec := built_spec ext (s\<lparr>m_subimage := i\<rparr>) i td\<rparr>"
    show ?thesis
    proof (cases "m_userBuf s = [] \<and> UserSize (header s) \<noteq> 0 \<and> UserSize (header s) \<noteq> 0xFFFFFFFF")
      case True
      then have "m_userBuf ?s1 = []" "UserSize (header ?s1) \<noteq> 0"
        "UserSize (header ?s1) \<noteq> 0xFFFFFFFF" by simp_all
      from read_user_data_first [OF this, of ext] True show ?thesis
        unfolding s' by (simp add: load_subimage_io)
    next
      case False
      then consider "m_userBuf ?s1 \<noteq> []"
        | "UserSize (header ?s1) = 0 \<or> UserSize (header ?s1) = 0xFFFFFFFF" by auto
      then have "m_userBuf (read_user_data ext ?s1) = m_userBuf s
          \<and> io (read_user_data ext ?s1) = io s"
      proof cases
        case 1
        from read_user_data_cached [OF this, of ext] show ?thesis by simp
      next
        case 2
        from read_user_data_skipped [OF this, of ext] show ?thesis by simp
      qed
      with False show ?thesis unfolding s' by (simp add: load_subimage_io)
    qed
  qed
  have cl: "m_userBuf (snd (close s)) = []" by (simp add: close_def init_def)
  from run step attr_UserData [of ext s i miplevel s'] cl show ?thesis
    unfolding cache_kept_def by blast
qed

theorem user_data_read_at_most_once_witness:
  "seek_subimage sample_externals header_parsed 0 0 = (True, selected0)
   \<and> 0 \<noteq> m_subimage header_parsed
   \<and> m_userBuf header_parsed = [] \<and> UserSize (header header_parsed) = 4
   \<and> io selected0 = [EvReadUserData 4]
   \<and> length (m_userBuf selected0) = 4
   \<and> attr selected0 ''dpx:UserData'' = Some (AUChars 4 (m_userBuf selected0))
   \<and> m_userBuf (run sample_externals [Seek 1 0, ReadScanlines 0 0 0 1, Seek 1 0] selected0)
       = m_userBuf selected0
   \<and> user_data_reads (run sample_externals [Seek 1 0, ReadScanlines 0 0 0 1, Seek 1 0] selected0)
       = 1"
proof -
  have ne: "0 \<noteq> m_subimage header_parsed" by simp
  from user_data_read_at_most_once [of sample_externals "[]" header_parsed 0 0 selected0]
    seek_sample0 ne
  have first: "io selected0 = [EvReadUserData 4]" "length (m_userBuf selected0) = 4"
    "m_userBuf selected0 \<noteq> []"
    "attr selected0 ''dpx:UserData'' = Some (AUChars 4 (m_userBuf selected0))"
    by simp_all
  then have one: "user_data_reads selected0 = 1" by (simp add: user_data_reads_def)
  from user_data_read_at_most_once
    [of sample_externals "[Seek 1 0, ReadScanlines 0 0 0 1, Seek 1 0]" selected0 0 0 selected0]
    first(3) one
  have later:
    "m_userBuf (run sample_externals [Seek 1 0, ReadScanlines 0 0 0 1, Seek 1 0] selected0)
       = m_userBuf selected0"
    "user_data_reads (run sample_externals [Seek 1 0, ReadScanlines 0 0 0 1, Seek 1 0] selected0)
       = 1"
    by simp_all
  from seek_sample0 ne first later show ?thesis by simp
qed

section \<open>Raw colour (C9)\<close>

text \<open>
  C9. Once a selection has built a specification of exactly one channel, raw colour is
  on, whether or not it was asked for when the file was opened. It stays on over any
  run of selections and scanline reads, none of which converts a block to RGB, and
  every subimage selected afterwards gets the raw channel layout: \<^verbatim>\<open>CbCr, Y\<close> for
  \<^verbatim>\<open>CbYCrY\<close>, \<^verbatim>\<open>CbCr, Y, A\<close> for \<^verbatim>\<open>CbYACrYA\<close>, \<^verbatim>\<open>Cb, Y, Cr\<close> for \<^verbatim>\<open>CbYCr\<close> and
  \<^verbatim>\<open>Cb, Y, Cr, A\<close> for \<^verbatim>\<open>CbYCrA\<close>, with the channel count of the element.
\<close>

theorem rawcolor_sticky:
  assumes "seek_subimage ext s i miplevel = (True, s')" "i \<noteq> m_subimage s"
    and "nchannels (m_spec s') = 1"
  shows "m_rawcolor s'
    \<and> (\<forall>calls. m_rawcolor (run ext calls s')
          \<and> conversions (run ext calls s') = conversions s')
    \<and> (\<forall>calls j ml t.
          seek_subimage ext (run ext calls s') j ml = (True, t)
          \<and> j \<noteq> m_subimage (run ext calls s') \<longrightarrow>
            (ImageDescriptor (header s) j = kCbYCrY \<longrightarrow>
               channelnames (m_spec t) = [''CbCr'', ''Y'']
               \<and> nchannels (m_spec t) = ImageElementComponentCount (header s) j)
          \<and> (ImageDescriptor (header s) j = kCbYACrYA \<longrightarrow>
               channelnames (m_spec t) = [''CbCr'', ''Y'', ''A'']
               \<and> alpha_channel (m_spec t) = 2
               \<and> nchannels (m_spec t) = ImageElementComponentCount (header s) j)
          \<and> (ImageDescriptor (header s) j = kCbYCr \<longrightarrow>
               channelnames (m_spec t) = [''Cb'', ''Y'', ''Cr'']
               \<and> nchannels (m_spec t) = ImageElementComponentCount (header s) j)
          \<and> (ImageDescriptor (header s) j = kCbYCrA \<longrightarrow>
               channelnames (m_spec t) = [''Cb'', ''Y'', ''Cr'', ''A'']
               \<and> alpha_channel (m_spec t) = 3
               \<and> nchannels (m_spec t) = ImageElementComponentCount (header s) j))"
proof -
  from assms(1,2) obtain td where
    s': "s' = load_subimage ext (s\<lparr>m_subimage := i\<rparr>) i td"
    by (rule seek_subimage_new)
  from assms(3) have raw: "m_rawcolor s'"
    unfolding s' by (subst load_subimage_rawcolor) simp
  have hs: "header s' = header s" unfolding s' by simp
  have kept: "m_rawcolor (run ext calls s') \<and> conversions (run ext calls s') = conversions s'
      \<and> header (run ext calls s') = header s" for calls
    using kept_run(2) [of s' ext calls] raw hs by (simp add: raw_kept_def)
  have lay: "(ImageDescriptor (header s) j = kCbYCrY \<longrightarrow>
               channelnames (m_spec t) = [''CbCr'', ''Y'']
               \<and> nchannels (m_spec t) = ImageElementComponentCount (header s) j)
          \<and> (ImageDescriptor (header s) j = kCbYACrYA \<longrightarrow>
               channelnames (m_spec t) = [''CbCr'', ''Y'', ''A'']
               \<and> alpha_channel (m_spec t) = 2
               \<and> nchannels (m_spec t) = ImageElementComponentCount (header s) j)
          \<and> (ImageDescriptor (header s) j = kCbYCr \<longrightarrow>
               channelnames (m_spec t) = [''Cb'', ''Y'', ''Cr'']
               \<and> nchannels (m_spec t) = ImageElementComponentCount (header s) j)
          \<and> (ImageDescriptor (header s) j = kCbYCrA \<longrightarrow>
               channelnames (m_spec t) = [''Cb'', ''Y'', ''Cr'', ''A'']
               \<and> alpha_channel (m_spec t) = 3
               \<and> nchannels (m_spec t) = ImageElementComponentCount (header s) j)"
    if a: "seek_subimage ext (run ext calls s') j ml = (True, t)"
      and b: "j \<noteq> m_subimage (run ext calls s')" for calls j ml t
  proof -
    let ?r = "run ext calls s'"
    from a b obtain td' where
      t: "t = load_subimage ext (?r\<lparr>m_subimage := j\<rparr>) j td'"
      by (rule seek_subimage_new)
    from kept [of calls] have r: "m_rawcolor (?r\<lparr>m_subimage := j\<rparr>)"
      and h: "header (?r\<lparr>m_subimage := j\<rparr>) = header s" by simp_all
    from raw_layout [OF r, of j ext td'] show ?thesis
      unfolding t h by blast
  qed
  from raw kept lay show ?thesis by blast
qed

theorem rawcolor_sticky_witness:
  "seek_subimage sample_externals selected0 1 0 = (True, selected1)
   \<and> 1 \<noteq> m_subimage selected0
   \<and> nchannels (m_spec selected1) = 1
   \<and> \<not> m_rawcolor selected0
   \<and> channelnames (m_spec selected0) = [''R'', ''G'', ''B'']
   \<and> m_rawcolor selected1
   \<and> conversions (run sample_externals [ReadScanlines 0 0 0 1] selected1) = conversions selected1
   \<and> channelnames (m_spec (snd (seek_subimage sample_externals selected1 0 0))) = [''CbCr'', ''Y'']
   \<and> nchannels (m_spec (snd (seek_subimage sample_externals selected1 0 0))) = 2"
proof -
  have ne: "1 \<noteq> m_subimage selected0" by simp
  note all = rawcolor_sticky [OF seek_sample1 ne selected1_nchannels]
  from all have raw: "m_rawcolor selected1" by blast
  from all have conv:
    "conversions (run sample_externals [ReadScanlines 0 0 0 1] selected1) = conversions selected1"
    by blast
  have sk: "seek_subimage sample_externals (run sample_externals [] selected1) 0 0
      = (True, snd (seek_subimage sample_externals selected1 0 0))"
    by (simp add: run_def typedesc_sample
        seek_subimage_selects [where s = selected1 and i = 0 and td = UINT8])
  have ne': "0 \<noteq> m_subimage (run sample_externals [] selected1)" by (simp add: run_def)
  from all [THEN conjunct2, THEN conjunct2, rule_format, OF conjI [OF sk ne']]
  have lay: "channelnames (m_spec (snd (seek_subimage sample_externals selected1 0 0))) = [''CbCr'', ''Y'']"
    "nchannels (m_spec (snd (seek_subimage sample_externals selected1 0 0))) = 2"
    by (simp_all add: sample_header_def)
  from seek_sample1 ne selected1_nchannels selected0_layout raw conv lay show ?thesis by simp
qed

end
